theory Spec2Isabelle
  imports Complex_Main
begin

section \<open>Python values and exceptions\<close>

text \<open>
  The notebook \<^verbatim>\<open>dev_nb/001b_fit.ipynb\<close> sequences calls into PyTorch and NumPy.
  An exception is a value of type \<open>error\<close>: \<open>ValueError\<close> and \<open>IndexError\<close> are the two
  that Python itself raises in the notebook's code (unpacking, indexing), \<open>Raised n\<close>
  stands for an exception that comes out of a framework call.
\<close>

datatype error = ValueError | IndexError | Raised nat

text \<open>
  \<^verbatim>\<open>Tensors = Union[Tensor, Collection['Tensors']]\<close>: a tensor (any object of the
  framework with a \<^verbatim>\<open>.to\<close> method, of the abstract type \<open>'t\<close>), or a Python list or
  tuple of such values.
\<close>

datatype 't tensors = Tensor 't | PyList "'t tensors list" | PyTuple "'t tensors list"

text \<open>\<^verbatim>\<open>def is_listy(x:Any)->bool: return isinstance(x, (tuple,list))\<close>\<close>

fun is_listy :: "'t tensors \<Rightarrow> bool" where
  "is_listy (Tensor t) = False"
| "is_listy (PyList xs) = True"
| "is_listy (PyTuple xs) = True"

text \<open>The elements of a list or tuple, as \<^verbatim>\<open>*xb\<close>, \<^verbatim>\<open>len(yb)\<close> and \<^verbatim>\<open>for o in b\<close> see them.\<close>

fun elems :: "'t tensors \<Rightarrow> 't tensors list" where
  "elems (Tensor t) = []"
| "elems (PyList xs) = xs"
| "elems (PyTuple xs) = xs"

text \<open>Sequencing of computations that may raise.\<close>

definition bindE :: "error + 'a \<Rightarrow> ('a \<Rightarrow> error + 'b) \<Rightarrow> error + 'b" where
  "bindE m f = (case m of Inl e \<Rightarrow> Inl e | Inr a \<Rightarrow> f a)"

text \<open>
  A list comprehension whose element expressions may raise: the elements are
  evaluated from left to right and the first exception ends the comprehension.
\<close>

fun collect :: "(error + 'a) list \<Rightarrow> error + 'a list" where
  "collect [] = Inr []"
| "collect (x # xs) = bindE x (\<lambda>a. bindE (collect xs) (\<lambda>as. Inr (a # as)))"

section \<open>Device placement\<close>

text \<open>
  \<^verbatim>\<open>torch.device('cuda')\<close> is \<open>Device ''cuda''\<close>. The module-level constant
  \<^verbatim>\<open>default_device = torch.device('cuda') if torch.cuda.is_available() else torch.device('cpu')\<close>
  is computed once, when the module is loaded, from the answer of
  \<^verbatim>\<open>torch.cuda.is_available()\<close> at that moment.
\<close>

datatype device = Device string

definition default_device :: "bool \<Rightarrow> device" where
  "default_device cuda_is_available =
     (if cuda_is_available then Device ''cuda'' else Device ''cpu'')"

text \<open>
  \<^verbatim>\<open>
  def ifnone(a:bool,b:Any):
      "`a` if its not None, otherwise `b`"
      return b if a is None else a
  \<close>
\<close>

definition ifnone :: "'a option \<Rightarrow> 'a \<Rightarrow> 'a" where
  "ifnone a b = (case a of None \<Rightarrow> b | Some x \<Rightarrow> x)"

text \<open>
  \<^verbatim>\<open>
  def to_device(b:Tensors, device:torch.device):
      "Ensure `b` is on `device`"
      device = ifnone(device, default_device)
      if is_listy(b): return [to_device(o, device) for o in b]
      return b.to(device)
  \<close>
  The framework's \<^verbatim>\<open>b.to(device)\<close> is the parameter \<open>tensor_to\<close>; it may raise. The
  parameter \<open>dflt\<close> is the value of the module-level \<^verbatim>\<open>default_device\<close>. The three
  equations are the two branches of the source, the list branch once for each of the
  two listy types.
\<close>

fun to_device ::
  "('t \<Rightarrow> device \<Rightarrow> error + 't) \<Rightarrow> device \<Rightarrow> 't tensors \<Rightarrow> device option \<Rightarrow> error + 't tensors"
where
  "to_device tensor_to dflt (Tensor t) device =
     bindE (tensor_to t (ifnone device dflt)) (\<lambda>t'. Inr (Tensor t'))"
| "to_device tensor_to dflt (PyList os) device =
     bindE (collect (map (\<lambda>o'. to_device tensor_to dflt o' (Some (ifnone device dflt))) os))
       (\<lambda>rs. Inr (PyList rs))"
| "to_device tensor_to dflt (PyTuple os) device =
     bindE (collect (map (\<lambda>o'. to_device tensor_to dflt o' (Some (ifnone device dflt))) os))
       (\<lambda>rs. Inr (PyList rs))"

section \<open>Layer factories\<close>

text \<open>
  A module of the framework is represented by the constructor call that built it:
  \<open>Conv2d ni nf kernel_size stride padding bias\<close> is
  \<^verbatim>\<open>nn.Conv2d(ni, nf, kernel_size=.., stride=.., padding=.., bias=..)\<close>, and
  \<open>Sequential ls\<close> is \<^verbatim>\<open>nn.Sequential(*ls)\<close>. The notebook's own \<^verbatim>\<open>Lambda\<close> layer wraps
  a function; the two functions the factories wrap are the constructors of
  \<open>lambda_func\<close>.
\<close>

datatype lambda_func =
    ResizeView "int list"  \<comment> \<open>\<^verbatim>\<open>lambda x: x.view((-1,)+size)\<close>\<close>
  | FlattenView            \<comment> \<open>\<^verbatim>\<open>lambda x: x.view((x.size(0), -1))\<close>\<close>

datatype layer =
    Conv2d int int int int int bool
  | ConvTranspose2d int int int int int
  | ReLU
  | BatchNorm2d int
  | AdaptiveAvgPool2d int
  | Lambda lambda_func
  | Sequential "layer list"

text \<open>
  A constructor of the framework may raise instead of building the module
  (\<^verbatim>\<open>nn.Conv2d\<close> does on a negative kernel size or channel count). Which calls raise, and
  what, is the framework's matter: the parameter \<open>NN\<close> gives, for a constructor
  call, the exception it raises, or \<open>None\<close> when it builds the module. \<open>nn\<close> is a call of a
  constructor of the framework.
\<close>

type_synonym nn_raises = "layer \<Rightarrow> error option"

definition nn :: "nn_raises \<Rightarrow> layer \<Rightarrow> error + layer" where
  "nn NN l = (case NN l of Some e \<Rightarrow> Inl e | None \<Rightarrow> Inr l)"

text \<open>
  The notebook's \<^verbatim>\<open>Lambda(func)\<close> only stores \<^verbatim>\<open>func\<close>: it is the constructor \<open>Lambda\<close>
  itself.
\<close>

definition ResizeBatch :: "int list \<Rightarrow> layer" where
  "ResizeBatch sz = Lambda (ResizeView sz)"

definition Flatten :: layer where
  "Flatten = Lambda FlattenView"

text \<open>
  \<^verbatim>\<open>def PoolFlatten()->nn.Sequential: return nn.Sequential(nn.AdaptiveAvgPool2d(1), Flatten())\<close>
\<close>

definition PoolFlatten :: "nn_raises \<Rightarrow> error + layer" where
  "PoolFlatten NN =
     bindE (nn NN (AdaptiveAvgPool2d 1)) (\<lambda>pool.
     nn NN (Sequential [pool, Flatten]))"

text \<open>
  \<^verbatim>\<open>
  def conv2d(ni:int, nf:int, ks:int=3, stride:int=1, padding:int=None, bias=False) -> nn.Conv2d:
      if padding is None: padding = ks//2
      return nn.Conv2d(ni, nf, kernel_size=ks, stride=stride, padding=padding, bias=bias)
  \<close>
  Python's \<^verbatim>\<open>//\<close> on integers rounds towards minus infinity, as \<open>div\<close> on \<open>int\<close> does.
  Default arguments are passed explicitly.
\<close>

definition conv2d ::
  "nn_raises \<Rightarrow> int \<Rightarrow> int \<Rightarrow> int \<Rightarrow> int \<Rightarrow> int option \<Rightarrow> bool \<Rightarrow> error + layer" where
  "conv2d NN ni nf ks stride padding bias =
     (let padding = (case padding of None \<Rightarrow> ks div 2 | Some p \<Rightarrow> p)
      in nn NN (Conv2d ni nf ks stride padding bias))"

text \<open>
  \<^verbatim>\<open>
  def conv2d_relu(ni:int, nf:int, ks:int=3, stride:int=1, padding:int=None, bn:bool=False) -> nn.Sequential:
      layers = [conv2d(ni, nf, ks=ks, stride=stride, padding=padding), nn.ReLU()]
      if bn: layers.append(nn.BatchNorm2d(nf))
      return nn.Sequential(*layers)
  \<close>
\<close>

definition conv2d_relu ::
  "nn_raises \<Rightarrow> int \<Rightarrow> int \<Rightarrow> int \<Rightarrow> int \<Rightarrow> int option \<Rightarrow> bool \<Rightarrow> error + layer" where
  "conv2d_relu NN ni nf ks stride padding bn =
     bindE (conv2d NN ni nf ks stride padding False) (\<lambda>conv.
     bindE (nn NN ReLU) (\<lambda>relu.
     bindE (if bn then bindE (nn NN (BatchNorm2d nf)) (\<lambda>b. Inr ([conv, relu] @ [b]))
            else Inr [conv, relu]) (\<lambda>layers.
     nn NN (Sequential layers))))"

text \<open>
  \<^verbatim>\<open>
  def conv2d_trans(ni:int, nf:int, ks:int=2, stride:int=2, padding:int=0) -> nn.ConvTranspose2d:
      return nn.ConvTranspose2d(ni, nf, kernel_size=ks, stride=stride, padding=padding)
  \<close>
\<close>

definition conv2d_trans :: "nn_raises \<Rightarrow> int \<Rightarrow> int \<Rightarrow> int \<Rightarrow> int \<Rightarrow> int \<Rightarrow> error + layer" where
  "conv2d_trans NN ni nf ks stride padding = nn NN (ConvTranspose2d ni nf ks stride padding)"

text \<open>
  Indexing a Python sequence with the non-negative index that \<^verbatim>\<open>range\<close> produces:
  out of range it raises \<^verbatim>\<open>IndexError\<close>.
\<close>

definition py_getitem :: "'a list \<Rightarrow> nat \<Rightarrow> error + 'a" where
  "py_getitem xs i = (if i < length xs then Inr (xs ! i) else Inl IndexError)"

text \<open>
  \<^verbatim>\<open>
  def simple_cnn(actns:Collection[int], kernel_szs:Collection[int],
                 strides:Collection[int]) -> nn.Sequential:
      layers = [conv2d_relu(actns[i], actns[i+1], kernel_szs[i], stride=strides[i])
          for i in range(len(strides))]
      layers.append(PoolFlatten())
      return nn.Sequential(*layers)
  \<close>
  The arguments of a call are evaluated from left to right, and the blocks are built
  in the order of the indices: the first exception, of an index out of range or of a
  constructor, ends the construction.
\<close>

definition simple_cnn :: "nn_raises \<Rightarrow> int list \<Rightarrow> int list \<Rightarrow> int list \<Rightarrow> error + layer" where
  "simple_cnn NN actns kernel_szs strides =
     bindE (collect (map (\<lambda>i.
        bindE (py_getitem actns i) (\<lambda>ni.
        bindE (py_getitem actns (i + 1)) (\<lambda>nf.
        bindE (py_getitem kernel_szs i) (\<lambda>ks.
        bindE (py_getitem strides i) (\<lambda>stride.
        conv2d_relu NN ni nf ks stride None False)))))
        [0..<length strides])) (\<lambda>layers.
     bindE (PoolFlatten NN) (\<lambda>pool_flatten.
     nn NN (Sequential (layers @ [pool_flatten]))))"

section \<open>Framework calls, the world and the trace\<close>

text \<open>
  Everything the notebook's functions do is a call into the framework. The framework's
  state (parameters, gradients, optimizer state, the training flag, the gradient mode,
  random number generators) is a value of the abstract type \<open>'w\<close>, the world. A framework
  call takes the world and returns the new world together with its result or the
  exception it raises.
\<close>

type_synonym ('w, 'a) fw = "'w \<Rightarrow> (error + 'a) \<times> 'w"

text \<open>
  The calls that \<^verbatim>\<open>loss_batch\<close> and \<^verbatim>\<open>fit\<close> make, with their arguments. Tensors have the
  abstract type \<open>'t\<close>, Python numbers (what \<^verbatim>\<open>loss.item()\<close> returns) the abstract
  type \<open>'f\<close>. A loop over a loader calls \<^verbatim>\<open>iter\<close> once and \<^verbatim>\<open>next\<close> for every batch; the
  loader is named by the parameter of \<^verbatim>\<open>fit\<close> that holds it.
\<close>

datatype ('t, 'f) event =
    Forward "'t tensors list"     \<comment> \<open>\<^verbatim>\<open>model(*xb)\<close>\<close>
  | LossFn 't "'t tensors list"   \<comment> \<open>\<^verbatim>\<open>loss_fn(out, *yb)\<close>\<close>
  | Backward 't                   \<comment> \<open>\<^verbatim>\<open>loss.backward()\<close>\<close>
  | Step                          \<comment> \<open>\<^verbatim>\<open>opt.step()\<close>\<close>
  | ZeroGrad                      \<comment> \<open>\<^verbatim>\<open>opt.zero_grad()\<close>\<close>
  | Item 't                       \<comment> \<open>\<^verbatim>\<open>loss.item()\<close>\<close>
  | Train                         \<comment> \<open>\<^verbatim>\<open>model.train()\<close>\<close>
  | Eval                          \<comment> \<open>\<^verbatim>\<open>model.eval()\<close>\<close>
  | NoGradEnter                   \<comment> \<open>entering \<^verbatim>\<open>with torch.no_grad():\<close>\<close>
  | NoGradExit                    \<comment> \<open>leaving it\<close>
  | Print int 'f                  \<comment> \<open>\<^verbatim>\<open>print(epoch, val_loss)\<close>\<close>
  | Iter string                   \<comment> \<open>\<^verbatim>\<open>iter(dl)\<close>, at the start of a loop over the loader named\<close>
  | Next string                   \<comment> \<open>\<^verbatim>\<open>next(it)\<close>, for the next batch of that loop\<close>

datatype ('t, 'f) retval = RNone | RTensor 't | RFloat 'f | RBatch "'t tensors"

text \<open>
  The trace records every call in the order in which it is made, with its outcome: the
  value it returned, or the exception it raised.
\<close>

type_synonym ('t, 'f) entry = "('t, 'f) event \<times> (error + ('t, 'f) retval)"

record ('w, 't, 'f) state =
  world :: 'w
  trace :: "('t, 'f) entry list"

type_synonym ('w, 't, 'f, 'a) prog =
  "('w, 't, 'f) state \<Rightarrow> (error + 'a) \<times> ('w, 't, 'f) state"

definition returnM :: "'a \<Rightarrow> ('w, 't, 'f, 'a) prog" where
  "returnM a = (\<lambda>s. (Inr a, s))"

definition raiseM :: "error \<Rightarrow> ('w, 't, 'f, 'a) prog" where
  "raiseM e = (\<lambda>s. (Inl e, s))"

text \<open>One statement after another: an exception in the first skips the second.\<close>

definition bindM ::
  "('w, 't, 'f, 'a) prog \<Rightarrow> ('a \<Rightarrow> ('w, 't, 'f, 'b) prog) \<Rightarrow> ('w, 't, 'f, 'b) prog" where
  "bindM m f = (\<lambda>s. case m s of (Inl e, s') \<Rightarrow> (Inl e, s') | (Inr a, s') \<Rightarrow> f a s')"

text \<open>
  A framework call \<open>f\<close>, made as the event \<open>ev\<close>: the world changes as \<open>f\<close> says, and the
  call is appended to the trace with its outcome (\<open>ret\<close> turns the result into the
  recorded value).
\<close>

definition call ::
  "('t, 'f) event \<Rightarrow> ('a \<Rightarrow> ('t, 'f) retval) \<Rightarrow> ('w, 'a) fw \<Rightarrow> ('w, 't, 'f, 'a) prog" where
  "call ev ret f = (\<lambda>s. case f (world s) of (r, w') \<Rightarrow>
     (r, \<lparr>world = w', trace = trace s @ [(ev, case r of Inl e \<Rightarrow> Inl e | Inr a \<Rightarrow> Inr (ret a))]\<rparr>))"

text \<open>A call that cannot raise and returns nothing of interest.\<close>

definition effect :: "('t, 'f) event \<Rightarrow> ('w \<Rightarrow> 'w) \<Rightarrow> ('w, 't, 'f, unit) prog" where
  "effect ev f = (\<lambda>s. (Inr (), \<lparr>world = f (world s), trace = trace s @ [(ev, Inr RNone)]\<rparr>))"

text \<open>
  \<^verbatim>\<open>for x in xs: body\<close> over a finite sequence, and the list comprehension
  \<^verbatim>\<open>[f(x) for x in xs]\<close>. An exception in the body ends the loop and propagates.
\<close>

fun for_each :: "'a list \<Rightarrow> ('a \<Rightarrow> ('w, 't, 'f, unit) prog) \<Rightarrow> ('w, 't, 'f, unit) prog" where
  "for_each [] body = returnM ()"
| "for_each (x # xs) body = bindM (body x) (\<lambda>_. for_each xs body)"

fun comprehension :: "'a list \<Rightarrow> ('a \<Rightarrow> ('w, 't, 'f, 'b) prog) \<Rightarrow> ('w, 't, 'f, 'b list) prog" where
  "comprehension [] f = returnM []"
| "comprehension (x # xs) f =
     bindM (f x) (\<lambda>r. bindM (comprehension xs f) (\<lambda>rs. returnM (r # rs)))"

text \<open>\<^verbatim>\<open>range(n)\<close> for a Python integer \<open>n\<close>: empty when \<open>n \<le> 0\<close>.\<close>

definition py_range :: "int \<Rightarrow> int list" where
  "py_range n = map int [0..<nat n]"

section \<open>The objects passed to the training loop\<close>

text \<open>
  \<^verbatim>\<open>Model = nn.Module\<close>: the methods of a model that the notebook calls. \<open>model_call\<close> is
  \<^verbatim>\<open>model(*xb)\<close>, the forward pass.
\<close>

record ('w, 't) nn_module =
  model_call :: "'t tensors list \<Rightarrow> ('w, 't) fw"
  model_train :: "('w, unit) fw"
  model_eval :: "('w, unit) fw"

text \<open>\<^verbatim>\<open>optim.Optimizer\<close>: \<^verbatim>\<open>opt.step()\<close> and \<^verbatim>\<open>opt.zero_grad()\<close>.\<close>

record 'w optimizer =
  opt_step :: "('w, unit) fw"
  opt_zero_grad :: "('w, unit) fw"

text \<open>
  \<^verbatim>\<open>LossFunction = Callable[[Tensor, Tensor], Rank0Tensor]\<close>, called as
  \<^verbatim>\<open>loss_fn(model(*xb), *yb)\<close>.
\<close>

type_synonym ('w, 't) loss_function = "'t \<Rightarrow> 't tensors list \<Rightarrow> ('w, 't) fw"

text \<open>
  What the notebook uses of \<^verbatim>\<open>torch\<close> itself: the tensor methods \<^verbatim>\<open>backward()\<close> and
  \<^verbatim>\<open>item()\<close>, and the context manager \<^verbatim>\<open>torch.no_grad()\<close>, whose entry switches gradient
  recording off and whose exit restores the previous mode. Entry and exit do not raise.
  \<open>tensor_unpack\<close> is what the unpacking \<^verbatim>\<open>xb,yb = b\<close> gives when the batch \<open>b\<close> is a tensor
  (its two rows, or an exception when it does not have exactly two).
\<close>

record ('w, 't, 'f) torch =
  tensor_backward :: "'t \<Rightarrow> ('w, unit) fw"
  tensor_item :: "'t \<Rightarrow> ('w, 'f) fw"
  no_grad_enter :: "'w \<Rightarrow> 'w"
  no_grad_exit :: "'w \<Rightarrow> 'w"
  tensor_unpack :: "'t \<Rightarrow> error + 't \<times> 't"

text \<open>
  What the notebook uses of \<^verbatim>\<open>numpy\<close>: \<^verbatim>\<open>np.multiply\<close> of a sequence of numbers by a
  sequence of integers of the same length (elementwise, by the scalar product
  \<open>np_mul\<close>), \<^verbatim>\<open>np.sum\<close> of a sequence of numbers, and the division of a number by an
  integer. The arithmetic of the numbers (floating point in the framework) is left
  abstract. \<^verbatim>\<open>np.sum\<close> of the integers \<^verbatim>\<open>nums\<close> is \<open>sum_list\<close>.
\<close>

record 'f numpy =
  np_mul :: "'f \<Rightarrow> int \<Rightarrow> 'f"
  np_sum :: "'f list \<Rightarrow> 'f"
  np_div :: "'f \<Rightarrow> int \<Rightarrow> 'f"

definition np_multiply :: "'f numpy \<Rightarrow> 'f list \<Rightarrow> int list \<Rightarrow> 'f list" where
  "np_multiply N losses nums = map (\<lambda>(l, n). np_mul N l n) (zip losses nums)"

text \<open>
  A loader passed to \<^verbatim>\<open>fit\<close> is iterated by \<^verbatim>\<open>for xb,yb in train_dl\<close>. The loop first
  calls \<^verbatim>\<open>iter(train_dl)\<close>: a call into the loader, which may raise and may change the
  world (a shuffling loader draws a new order for every pass). It returns the iterator
  of this pass, here the finite list of the fetches that the successive calls of
  \<^verbatim>\<open>next\<close> make. A fetch is a call again: it returns the next batch or raises, and may
  change the world (a \<^verbatim>\<open>DeviceDataLoader\<close> transfers the batch when it is fetched). The
  number of batches of a pass is fixed when the pass starts; the call of \<^verbatim>\<open>next\<close> that
  ends the pass is not represented.
\<close>

type_synonym ('w, 't) fetch = "('w, 't tensors) fw"

type_synonym ('w, 't) loader = "('w, ('w, 't) fetch list) fw"

section \<open>The training loop\<close>

text \<open>
  \<^verbatim>\<open>
  def loss_batch(model:Model, xb:Tensor, yb:Tensor,
                 loss_fn:LossFunction, opt:optim.Optimizer=None):
      "Calculate loss for the batch `xb,yb` and backprop with `opt`"
      if not is_listy(xb): xb = [xb]
      if not is_listy(yb): yb = [yb]
      loss = loss_fn(model(*xb), *yb)

      if opt is not None:
          loss.backward()
          opt.step()
          opt.zero_grad()

      return loss.item(), len(yb)
  \<close>
\<close>

definition loss_batch ::
  "('w, 't, 'f) torch \<Rightarrow> ('w, 't) nn_module \<Rightarrow> 't tensors \<Rightarrow> 't tensors \<Rightarrow>
   ('w, 't) loss_function \<Rightarrow> 'w optimizer option \<Rightarrow> ('w, 't, 'f, 'f \<times> int) prog" where
  "loss_batch T model xb yb loss_fn opt =
     (let xb = (if \<not> is_listy xb then PyList [xb] else xb);
          yb = (if \<not> is_listy yb then PyList [yb] else yb)
      in bindM (call (Forward (elems xb)) RTensor (model_call model (elems xb))) (\<lambda>out.
         bindM (call (LossFn out (elems yb)) RTensor (loss_fn out (elems yb))) (\<lambda>loss.
         bindM (case opt of
                  None \<Rightarrow> returnM ()
                | Some opt \<Rightarrow>
                    bindM (call (Backward loss) (\<lambda>_. RNone) (tensor_backward T loss)) (\<lambda>_.
                    bindM (call Step (\<lambda>_. RNone) (opt_step opt)) (\<lambda>_.
                    call ZeroGrad (\<lambda>_. RNone) (opt_zero_grad opt)))) (\<lambda>_.
         bindM (call (Item loss) RFloat (tensor_item T loss)) (\<lambda>item.
         returnM (item, int (length (elems yb))))))))"

text \<open>
  \<^verbatim>\<open>with torch.no_grad(): body\<close>. The context is left when the body ends, also when it
  ends by an exception; the exception then propagates.
\<close>

definition with_no_grad ::
  "('w, 't, 'f) torch \<Rightarrow> ('w, 't, 'f, 'a) prog \<Rightarrow> ('w, 't, 'f, 'a) prog" where
  "with_no_grad T body = (\<lambda>s.
     case effect NoGradEnter (no_grad_enter T) s of (_, s1) \<Rightarrow>
     case body s1 of (r, s2) \<Rightarrow>
     case effect NoGradExit (no_grad_exit T) s2 of (_, s3) \<Rightarrow> (r, s3))"

text \<open>
  \<^verbatim>\<open>losses,nums = zip(*rs)\<close> for a list \<open>rs\<close> of pairs: with no pair in \<open>rs\<close> the \<^verbatim>\<open>zip\<close> is
  empty and the unpacking into two names raises \<^verbatim>\<open>ValueError\<close>.
\<close>

definition zip_star :: "('a \<times> 'b) list \<Rightarrow> error + ('a list \<times> 'b list)" where
  "zip_star rs = (if rs = [] then Inl ValueError else Inr (map fst rs, map snd rs))"

definition liftE :: "error + 'a \<Rightarrow> ('w, 't, 'f, 'a) prog" where
  "liftE r = (case r of Inl e \<Rightarrow> raiseM e | Inr a \<Rightarrow> returnM a)"

text \<open>
  \<^verbatim>\<open>xb,yb = b\<close> for a batch \<open>b\<close> that a loader yields: a list or tuple of two elements is
  taken apart; one of another length raises \<^verbatim>\<open>ValueError\<close>; a tensor is unpacked by the
  framework.
\<close>

fun pair_of :: "'a list \<Rightarrow> error + 'a \<times> 'a" where
  "pair_of [x, y] = Inr (x, y)"
| "pair_of xs = Inl ValueError"

fun unpack :: "('w, 't, 'f) torch \<Rightarrow> 't tensors \<Rightarrow> error + 't tensors \<times> 't tensors" where
  "unpack T (Tensor t) = bindE (tensor_unpack T t) (\<lambda>(x, y). Inr (Tensor x, Tensor y))"
| "unpack T (PyList xs) = pair_of xs"
| "unpack T (PyTuple xs) = pair_of xs"

text \<open>
  \<^verbatim>\<open>for b in dl: body\<close> and \<^verbatim>\<open>[f(b) for b in dl]\<close> over a loader: \<^verbatim>\<open>iter(dl)\<close>, then for
  every fetch of the pass, in order, \<^verbatim>\<open>next\<close> and the body on the batch it returned.
\<close>

definition for_in ::
  "string \<Rightarrow> ('w, 't) loader \<Rightarrow> ('t tensors \<Rightarrow> ('w, 't, 'f, unit) prog) \<Rightarrow> ('w, 't, 'f, unit) prog" where
  "for_in name dl body =
     bindM (call (Iter name) (\<lambda>_. RNone) dl) (\<lambda>fetches.
     for_each fetches (\<lambda>fetch. bindM (call (Next name) RBatch fetch) body))"

definition comprehension_in ::
  "string \<Rightarrow> ('w, 't) loader \<Rightarrow> ('t tensors \<Rightarrow> ('w, 't, 'f, 'b) prog) \<Rightarrow> ('w, 't, 'f, 'b list) prog" where
  "comprehension_in name dl f =
     bindM (call (Iter name) (\<lambda>_. RNone) dl) (\<lambda>fetches.
     comprehension fetches (\<lambda>fetch. bindM (call (Next name) RBatch fetch) f))"

text \<open>
  \<^verbatim>\<open>
  def fit(epochs:int, model:Model, loss_fn:LossFunction,
          opt:optim.Optimizer, train_dl:DataLoader, valid_dl:DataLoader) -> None:
      "Train `model` for `epochs` with `loss_fun` and `optim`"
      for epoch in range(epochs):
          model.train()
          for xb,yb in train_dl: loss,_ = loss_batch(model, xb, yb, loss_fn, opt)

          model.eval()
          with torch.no_grad():
              losses,nums = zip(*[loss_batch(model, xb, yb, loss_fn)
                                  for xb,yb in valid_dl])
          val_loss = np.sum(np.multiply(losses,nums)) / np.sum(nums)

          print(epoch, val_loss)
  \<close>
  The notebook defines \<^verbatim>\<open>fit\<close> twice, with the same body. The type of \<^verbatim>\<open>opt\<close> is
  \<^verbatim>\<open>optim.Optimizer\<close>: \<^verbatim>\<open>fit\<close> is not given \<open>None\<close>. \<^verbatim>\<open>print\<close> appends to the trace and
  leaves the world as it is.
\<close>

definition fit ::
  "('w, 't, 'f) torch \<Rightarrow> 'f numpy \<Rightarrow> int \<Rightarrow> ('w, 't) nn_module \<Rightarrow> ('w, 't) loss_function \<Rightarrow>
   'w optimizer \<Rightarrow> ('w, 't) loader \<Rightarrow> ('w, 't) loader \<Rightarrow> ('w, 't, 'f, unit) prog" where
  "fit T N epochs model loss_fn opt train_dl valid_dl =
     for_each (py_range epochs) (\<lambda>epoch.
       bindM (call Train (\<lambda>_. RNone) (model_train model)) (\<lambda>_.
       bindM (for_in ''train_dl'' train_dl (\<lambda>b.
                bindM (liftE (unpack T b)) (\<lambda>(xb, yb).
                bindM (loss_batch T model xb yb loss_fn (Some opt)) (\<lambda>_. returnM ())))) (\<lambda>_.
       bindM (call Eval (\<lambda>_. RNone) (model_eval model)) (\<lambda>_.
       bindM (with_no_grad T
                (bindM (comprehension_in ''valid_dl'' valid_dl (\<lambda>b.
                          bindM (liftE (unpack T b)) (\<lambda>(xb, yb).
                          loss_batch T model xb yb loss_fn None)))
                   (\<lambda>rs. liftE (zip_star rs)))) (\<lambda>(losses, nums).
       (let val_loss = np_div N (np_sum N (np_multiply N losses nums)) (sum_list nums)
        in effect (Print epoch val_loss) (\<lambda>w. w)))))))"

section \<open>The dataset and loader wrappers\<close>

text \<open>
  A method of a Python object may assign to the attributes of \<^verbatim>\<open>self\<close>. Each method of a
  wrapper class is therefore a function from the object to the object after the call
  and the method's result.

  A \<^verbatim>\<open>Dataset\<close> of the framework answers \<^verbatim>\<open>len(ds)\<close> and \<^verbatim>\<open>ds[idx]\<close>; an item is a pair
  \<^verbatim>\<open>(x, y)\<close>.
\<close>

record ('x, 'y) Dataset =
  ds_len :: "error + nat"
  ds_getitem :: "int \<Rightarrow> error + ('x \<times> 'y)"

text \<open>
  \<^verbatim>\<open>
  @dataclass
  class DatasetTfm(Dataset):
      "Applies `tfm` to `ds`"
      ds: Dataset
      tfm: Callable = None

      def __len__(self): return len(self.ds)

      def __getitem__(self,idx:int):
          "Apply `tfm` to `x` and return `(x[idx],y[idx])`"
          x,y = self.ds[idx]
          if self.tfm is not None: x = self.tfm(x)
          return x,y
  \<close>
\<close>

record ('x, 'y) DatasetTfm =
  dt_ds :: "('x, 'y) Dataset"
  dt_tfm :: "('x \<Rightarrow> error + 'x) option"

definition DatasetTfm_len :: "('x, 'y) DatasetTfm \<Rightarrow> ('x, 'y) DatasetTfm \<times> (error + nat)" where
  "DatasetTfm_len self = (self, ds_len (dt_ds self))"

definition DatasetTfm_getitem ::
  "('x, 'y) DatasetTfm \<Rightarrow> int \<Rightarrow> ('x, 'y) DatasetTfm \<times> (error + ('x \<times> 'y))" where
  "DatasetTfm_getitem self idx =
     (self,
      bindE (ds_getitem (dt_ds self) idx) (\<lambda>(x, y).
      bindE (case dt_tfm self of None \<Rightarrow> Inr x | Some f \<Rightarrow> f x) (\<lambda>x.
      Inr (x, y))))"

text \<open>
  A \<^verbatim>\<open>DataLoader\<close> of the framework: the batches one pass over it yields, and what it
  answers to \<^verbatim>\<open>len(dl)\<close>.
\<close>

record 't DataLoader =
  dl_batches :: "'t tensors list"
  dl_len :: "error + nat"

text \<open>
  \<^verbatim>\<open>
  @dataclass
  class DeviceDataLoader():
      "`DataLoader` that ensures batches from `dl` are on `device`"
      dl: DataLoader
      device: torch.device

      def __len__(self) -> int: return len(self.dl)
      def proc_batch(self,b:Tensors): return to_device(b, self.device)

      def __iter__(self)->Tensors:
          "Ensure batches from `dl` are on `device` as we iterate"
          self.gen = map(self.proc_batch, self.dl)
          return iter(self.gen)

      @classmethod
      def create(cls, *args, device:torch.device=default_device, **kwargs):
          return cls(DataLoader(*args, **kwargs), device=device)
  \<close>
  The attribute \<^verbatim>\<open>gen\<close> does not exist until \<^verbatim>\<open>__iter__\<close> is first called (\<open>None\<close>). The
  \<^verbatim>\<open>map\<close> object is the sequence of the outcomes of \<^verbatim>\<open>proc_batch\<close> on the batches of
  \<^verbatim>\<open>dl\<close>, each computed when the iteration reaches it.
\<close>

record 't DeviceDataLoader =
  ddl_dl :: "'t DataLoader"
  ddl_device :: "device option"
  ddl_gen :: "(error + 't tensors) list option"

definition DeviceDataLoader_init :: "'t DataLoader \<Rightarrow> device option \<Rightarrow> 't DeviceDataLoader" where
  "DeviceDataLoader_init dl device = \<lparr>ddl_dl = dl, ddl_device = device, ddl_gen = None\<rparr>"

definition DeviceDataLoader_len ::
  "'t DeviceDataLoader \<Rightarrow> 't DeviceDataLoader \<times> (error + nat)" where
  "DeviceDataLoader_len self = (self, dl_len (ddl_dl self))"

definition proc_batch ::
  "('t \<Rightarrow> device \<Rightarrow> error + 't) \<Rightarrow> device \<Rightarrow> 't DeviceDataLoader \<Rightarrow> 't tensors \<Rightarrow>
   't DeviceDataLoader \<times> (error + 't tensors)" where
  "proc_batch tensor_to dflt self b = (self, to_device tensor_to dflt b (ddl_device self))"

definition DeviceDataLoader_iter ::
  "('t \<Rightarrow> device \<Rightarrow> error + 't) \<Rightarrow> device \<Rightarrow> 't DeviceDataLoader \<Rightarrow>
   't DeviceDataLoader \<times> (error + 't tensors) list" where
  "DeviceDataLoader_iter tensor_to dflt self =
     (let gen = map (\<lambda>b. snd (proc_batch tensor_to dflt self b)) (dl_batches (ddl_dl self))
      in (self\<lparr>ddl_gen := Some gen\<rparr>, gen))"




section \<open>Descriptions used in the statements\<close>

text \<open>
  The argument list that \<^verbatim>\<open>loss_batch\<close> passes on after
  \<^verbatim>\<open>if not is_listy(x): x = [x]\<close>: the elements of a list or tuple, and the one-element
  list of anything else.
\<close>

definition listify :: "'t tensors \<Rightarrow> 't tensors list" where
  "listify x = (if is_listy x then elems x else [x])"

text \<open>
  An entry of the trace is ok when its call returned, and failed when it raised. The
  new entries of a run from \<open>s\<close> to \<open>s'\<close> are those that \<open>s'\<close> has after the entries of \<open>s\<close>.
\<close>

definition ok_entry :: "('t, 'f) entry \<Rightarrow> bool" where
  "ok_entry en = (case snd en of Inl e \<Rightarrow> False | Inr v \<Rightarrow> True)"

definition all_ok :: "('t, 'f) entry list \<Rightarrow> bool" where
  "all_ok es = list_all ok_entry es"

definition new_entries :: "('w, 't, 'f) state \<Rightarrow> ('w, 't, 'f) state \<Rightarrow> ('t, 'f) entry list" where
  "new_entries s s' = drop (length (trace s)) (trace s')"

definition valid_batch_entries ::
  "'t tensors \<times> 't tensors \<Rightarrow> 't \<times> 't \<times> 'f \<Rightarrow> ('t, 'f) entry list" where
  "valid_batch_entries b r = (case (b, r) of ((xb, yb), (out, loss, item)) \<Rightarrow>
     [(Forward (listify xb), Inr (RTensor out)),
      (LossFn out (listify yb), Inr (RTensor loss)),
      (Item loss, Inr (RFloat item))])"

text \<open>
  How a run may end in the exception \<open>e\<close>: the last new entry is a call that raised \<open>e\<close>,
  and every call before it returned.
\<close>

definition failed_last :: "error \<Rightarrow> ('t, 'f) entry list \<Rightarrow> bool" where
  "failed_last e es = (\<exists>pre ev. es = pre @ [(ev, Inl e)] \<and> all_ok pre)"

text \<open>
  The new entries \<open>es\<close> of a run agree with its result \<open>r\<close>, up to the description \<open>F\<close> of
  failures: every new entry is ok when the run returns, and the new entries satisfy
  \<open>F e\<close> when it raises \<open>e\<close>. A program behaves as \<open>F\<close> when every run of it only appends
  to the trace, and the entries it appends agree with its result.
\<close>

definition ends_as ::
  "(error \<Rightarrow> ('t, 'f) entry list \<Rightarrow> bool) \<Rightarrow> error + 'a \<Rightarrow> ('t, 'f) entry list \<Rightarrow> bool" where
  "ends_as F r es = (case r of Inr a \<Rightarrow> all_ok es | Inl e \<Rightarrow> F e es)"

definition behaves ::
  "(error \<Rightarrow> ('t, 'f) entry list \<Rightarrow> bool) \<Rightarrow> ('w, 't, 'f, 'a) prog \<Rightarrow> bool" where
  "behaves F m = (\<forall>s. \<exists>es. trace (snd (m s)) = trace s @ es \<and> ends_as F (fst (m s)) es)"

text \<open>A description of failures that stays true when calls that returned come first.\<close>

definition ok_closed :: "(error \<Rightarrow> ('t, 'f) entry list \<Rightarrow> bool) \<Rightarrow> bool" where
  "ok_closed F = (\<forall>e pre es. all_ok pre \<longrightarrow> F e es \<longrightarrow> F e (pre @ es))"

text \<open>
  The calls that \<^verbatim>\<open>loss_batch\<close> makes when it is given no optimizer: the forward pass, the
  loss function and \<^verbatim>\<open>loss.item()\<close>.
\<close>

fun forward_loss_item :: "('t, 'f) event \<Rightarrow> bool" where
  "forward_loss_item (Forward xs) = True"
| "forward_loss_item (LossFn out ys) = True"
| "forward_loss_item (Item loss) = True"
| "forward_loss_item ev = False"

text \<open>
  A program keeps the observation \<open>obs\<close> of the world (the model's parameters, say) when
  no run of it changes what \<open>obs\<close> sees; a framework call keeps it likewise.
\<close>

definition keeps :: "('w \<Rightarrow> 'p) \<Rightarrow> ('w, 't, 'f, 'a) prog \<Rightarrow> bool" where
  "keeps obs m = (\<forall>s. obs (world (snd (m s))) = obs (world s))"

definition fw_keeps :: "('w \<Rightarrow> 'p) \<Rightarrow> ('w, 'a) fw \<Rightarrow> bool" where
  "fw_keeps obs f = (\<forall>w. obs (snd (f w)) = obs w)"

text \<open>The unweighted arithmetic mean of the numbers \<open>items\<close>, in the arithmetic of \<open>N\<close>.\<close>

definition mean :: "'f numpy \<Rightarrow> 'f list \<Rightarrow> 'f" where
  "mean N items = np_div N (np_sum N items) (int (length items))"

text \<open>The tensors inside a value, from left to right, and the values built with lists only.\<close>

fun leaves :: "'t tensors \<Rightarrow> 't list" where
  "leaves (Tensor t) = [t]"
| "leaves (PyList xs) = concat (map leaves xs)"
| "leaves (PyTuple xs) = concat (map leaves xs)"

fun lists_only :: "'t tensors \<Rightarrow> bool" where
  "lists_only (Tensor t) = True"
| "lists_only (PyList xs) = list_all lists_only xs"
| "lists_only (PyTuple xs) = False"

text \<open>
  A framework call \<open>f\<close>, recorded as the event \<open>ev\<close>, is made in the state \<open>s\<close>, returns \<open>a\<close>
  and leaves the state \<open>s'\<close>: the world of \<open>s'\<close> is the one \<open>f\<close> left, and the trace has the
  call as its one new entry. Likewise for a call that raises \<open>e\<close>.
\<close>

definition returns ::
  "('t, 'f) event \<Rightarrow> ('a \<Rightarrow> ('t, 'f) retval) \<Rightarrow> ('w, 'a) fw \<Rightarrow> 'a \<Rightarrow>
   ('w, 't, 'f) state \<Rightarrow> ('w, 't, 'f) state \<Rightarrow> bool" where
  "returns ev ret f a s s' \<longleftrightarrow>
     (\<exists>w'. f (world s) = (Inr a, w') \<and>
           s' = \<lparr>world = w', trace = trace s @ [(ev, Inr (ret a))]\<rparr>)"

definition raises ::
  "('t, 'f) event \<Rightarrow> ('w, 'a) fw \<Rightarrow> error \<Rightarrow> ('w, 't, 'f) state \<Rightarrow> ('w, 't, 'f) state \<Rightarrow> bool" where
  "raises ev f e s s' \<longleftrightarrow>
     (\<exists>w'. f (world s) = (Inl e, w') \<and>
           s' = \<lparr>world = w', trace = trace s @ [(ev, Inl e)]\<rparr>)"

text \<open>
  Training on the batch \<open>(xb, yb)\<close>, from the state \<open>s\<close> to the state \<open>s'\<close>, with the result
  \<open>res\<close>: the forward pass, the loss function, the backward pass, the optimizer step,
  the zero-gradient reset and \<^verbatim>\<open>loss.item()\<close> are called in this order and return; the
  result is the number from \<^verbatim>\<open>loss.item()\<close> with the length of the target list.
\<close>

definition batch_trained ::
  "('w, 't, 'f) torch \<Rightarrow> ('w, 't) nn_module \<Rightarrow> ('w, 't) loss_function \<Rightarrow> 'w optimizer \<Rightarrow>
   't tensors \<Rightarrow> 't tensors \<Rightarrow> ('w, 't, 'f) state \<Rightarrow> 'f \<times> int \<Rightarrow> ('w, 't, 'f) state \<Rightarrow> bool" where
  "batch_trained T model loss_fn opt xb yb s res s' \<longleftrightarrow>
     (\<exists>out loss item s1 s2 s3 s4 s5.
        returns (Forward (listify xb)) RTensor (model_call model (listify xb)) out s s1 \<and>
        returns (LossFn out (listify yb)) RTensor (loss_fn out (listify yb)) loss s1 s2 \<and>
        returns (Backward loss) (\<lambda>_. RNone) (tensor_backward T loss) () s2 s3 \<and>
        returns Step (\<lambda>_. RNone) (opt_step opt) () s3 s4 \<and>
        returns ZeroGrad (\<lambda>_. RNone) (opt_zero_grad opt) () s4 s5 \<and>
        returns (Item loss) RFloat (tensor_item T loss) item s5 s' \<and>
        res = (item, int (length (listify yb))))"

text \<open>
  Computing the loss of the batch \<open>(xb, yb)\<close> without optimizer: the forward pass, the
  loss function and \<^verbatim>\<open>loss.item()\<close> are called in this order and return.
\<close>

definition batch_evaluated ::
  "('w, 't, 'f) torch \<Rightarrow> ('w, 't) nn_module \<Rightarrow> ('w, 't) loss_function \<Rightarrow>
   't tensors \<Rightarrow> 't tensors \<Rightarrow> ('w, 't, 'f) state \<Rightarrow> 'f \<times> int \<Rightarrow> ('w, 't, 'f) state \<Rightarrow> bool" where
  "batch_evaluated T model loss_fn xb yb s res s' \<longleftrightarrow>
     (\<exists>out loss item s1 s2.
        returns (Forward (listify xb)) RTensor (model_call model (listify xb)) out s s1 \<and>
        returns (LossFn out (listify yb)) RTensor (loss_fn out (listify yb)) loss s1 s2 \<and>
        returns (Item loss) RFloat (tensor_item T loss) item s2 s' \<and>
        res = (item, int (length (listify yb))))"

text \<open>
  How \<^verbatim>\<open>loss_batch\<close> on the batch \<open>(xb, yb)\<close> ends in the exception \<open>e\<close>, from \<open>s\<close> to \<open>s'\<close>: one
  of its calls raises \<open>e\<close>, the calls before it have returned, and \<open>s'\<close> is the state that
  the raising call left. Without optimizer the calls are the forward pass, the loss
  function and \<^verbatim>\<open>loss.item()\<close>; with an optimizer the backward pass, the step and the
  zero-gradient reset come before \<^verbatim>\<open>loss.item()\<close>.
\<close>

definition batch_raises ::
  "('w, 't, 'f) torch \<Rightarrow> ('w, 't) nn_module \<Rightarrow> ('w, 't) loss_function \<Rightarrow> 'w optimizer option \<Rightarrow>
   't tensors \<Rightarrow> 't tensors \<Rightarrow> ('w, 't, 'f) state \<Rightarrow> error \<Rightarrow> ('w, 't, 'f) state \<Rightarrow> bool" where
  "batch_raises T model loss_fn opt xb yb s e s' \<longleftrightarrow>
     raises (Forward (listify xb)) (model_call model (listify xb)) e s s' \<or>
     (\<exists>out s1.
        returns (Forward (listify xb)) RTensor (model_call model (listify xb)) out s s1 \<and>
        (raises (LossFn out (listify yb)) (loss_fn out (listify yb)) e s1 s' \<or>
         (\<exists>loss s2.
            returns (LossFn out (listify yb)) RTensor (loss_fn out (listify yb)) loss s1 s2 \<and>
            (case opt of
               None \<Rightarrow> raises (Item loss) (tensor_item T loss) e s2 s'
             | Some opt \<Rightarrow>
                 raises (Backward loss) (tensor_backward T loss) e s2 s' \<or>
                 (\<exists>s3. returns (Backward loss) (\<lambda>_. RNone) (tensor_backward T loss) () s2 s3 \<and>
                   (raises Step (opt_step opt) e s3 s' \<or>
                    (\<exists>s4. returns Step (\<lambda>_. RNone) (opt_step opt) () s3 s4 \<and>
                      (raises ZeroGrad (opt_zero_grad opt) e s4 s' \<or>
                       (\<exists>s5. returns ZeroGrad (\<lambda>_. RNone) (opt_zero_grad opt) () s4 s5 \<and>
                          raises (Item loss) (tensor_item T loss) e s5 s')))))))))"

text \<open>
  One pass over the fetches \<open>fs\<close> of a loader, from the state \<open>s\<close> to the state \<open>s'\<close>: for
  every fetch, in order, \<^verbatim>\<open>next\<close> returns a batch \<open>b\<close>, and then the step \<open>B\<close> is taken on
  \<open>b\<close>, with a result; the next fetch is made in the state that the step left. \<open>rs\<close> are
  the results of the steps, in order.
\<close>

fun iterated ::
  "string \<Rightarrow> ('t tensors \<Rightarrow> ('w, 't, 'f) state \<Rightarrow> 'r \<Rightarrow> ('w, 't, 'f) state \<Rightarrow> bool) \<Rightarrow>
   ('w, 't) fetch list \<Rightarrow> ('w, 't, 'f) state \<Rightarrow> 'r list \<Rightarrow> ('w, 't, 'f) state \<Rightarrow> bool" where
  "iterated name B [] s rs s' \<longleftrightarrow> rs = [] \<and> s' = s"
| "iterated name B (f # fs) s rs s' \<longleftrightarrow>
     (\<exists>b s1 r s2 rs'.
        returns (Next name) RBatch f b s s1 \<and> B b s1 r s2 \<and>
        iterated name B fs s2 rs' s' \<and> rs = r # rs')"

text \<open>
  A pass that ends in the exception \<open>e\<close>: the fetches and steps before have returned,
  and then either \<^verbatim>\<open>next\<close> raises \<open>e\<close>, or the step raises \<open>e\<close> (as \<open>BF\<close> says) on the batch
  that \<^verbatim>\<open>next\<close> returned. No fetch and no step follows.
\<close>

fun iterated_raises ::
  "string \<Rightarrow> ('t tensors \<Rightarrow> ('w, 't, 'f) state \<Rightarrow> 'r \<Rightarrow> ('w, 't, 'f) state \<Rightarrow> bool) \<Rightarrow>
   ('t tensors \<Rightarrow> ('w, 't, 'f) state \<Rightarrow> error \<Rightarrow> ('w, 't, 'f) state \<Rightarrow> bool) \<Rightarrow>
   ('w, 't) fetch list \<Rightarrow> ('w, 't, 'f) state \<Rightarrow> error \<Rightarrow> ('w, 't, 'f) state \<Rightarrow> bool" where
  "iterated_raises name B BF [] s e s' \<longleftrightarrow> False"
| "iterated_raises name B BF (f # fs) s e s' \<longleftrightarrow>
     raises (Next name) f e s s' \<or>
     (\<exists>b s1. returns (Next name) RBatch f b s s1 \<and>
        (BF b s1 e s' \<or>
         (\<exists>r s2. B b s1 r s2 \<and> iterated_raises name B BF fs s2 e s')))"

text \<open>
  The step of \<^verbatim>\<open>fit\<close> on a batch \<open>b\<close> of \<open>train_dl\<close>: \<open>b\<close> unpacks into \<open>(xb, yb)\<close>, and
  \<open>(xb, yb)\<close> is trained on. On a batch of \<open>valid_dl\<close>: \<open>b\<close> unpacks, and the loss is
  computed without optimizer. The step raises \<open>e\<close> when the unpacking does, with nothing
  called, or when \<^verbatim>\<open>loss_batch\<close> does.
\<close>

definition trained ::
  "('w, 't, 'f) torch \<Rightarrow> ('w, 't) nn_module \<Rightarrow> ('w, 't) loss_function \<Rightarrow> 'w optimizer \<Rightarrow>
   't tensors \<Rightarrow> ('w, 't, 'f) state \<Rightarrow> 'f \<times> int \<Rightarrow> ('w, 't, 'f) state \<Rightarrow> bool" where
  "trained T model loss_fn opt b s res s' \<longleftrightarrow>
     (\<exists>xb yb. unpack T b = Inr (xb, yb) \<and> batch_trained T model loss_fn opt xb yb s res s')"

definition evaluated ::
  "('w, 't, 'f) torch \<Rightarrow> ('w, 't) nn_module \<Rightarrow> ('w, 't) loss_function \<Rightarrow>
   't tensors \<Rightarrow> ('w, 't, 'f) state \<Rightarrow> 'f \<times> int \<Rightarrow> ('w, 't, 'f) state \<Rightarrow> bool" where
  "evaluated T model loss_fn b s res s' \<longleftrightarrow>
     (\<exists>xb yb. unpack T b = Inr (xb, yb) \<and> batch_evaluated T model loss_fn xb yb s res s')"

definition step_raises ::
  "('w, 't, 'f) torch \<Rightarrow> ('w, 't) nn_module \<Rightarrow> ('w, 't) loss_function \<Rightarrow> 'w optimizer option \<Rightarrow>
   't tensors \<Rightarrow> ('w, 't, 'f) state \<Rightarrow> error \<Rightarrow> ('w, 't, 'f) state \<Rightarrow> bool" where
  "step_raises T model loss_fn opt b s e s' \<longleftrightarrow>
     (unpack T b = Inl e \<and> s' = s) \<or>
     (\<exists>xb yb. unpack T b = Inr (xb, yb) \<and> batch_raises T model loss_fn opt xb yb s e s')"

text \<open>
  The states after entering and after leaving \<^verbatim>\<open>with torch.no_grad():\<close>, and after
  \<^verbatim>\<open>print(epoch, v)\<close>.
\<close>

definition no_grad_entered :: "('w, 't, 'f) torch \<Rightarrow> ('w, 't, 'f) state \<Rightarrow> ('w, 't, 'f) state" where
  "no_grad_entered T s =
     \<lparr>world = no_grad_enter T (world s), trace = trace s @ [(NoGradEnter, Inr RNone)]\<rparr>"

definition no_grad_exited :: "('w, 't, 'f) torch \<Rightarrow> ('w, 't, 'f) state \<Rightarrow> ('w, 't, 'f) state" where
  "no_grad_exited T s =
     \<lparr>world = no_grad_exit T (world s), trace = trace s @ [(NoGradExit, Inr RNone)]\<rparr>"

definition printed :: "int \<Rightarrow> 'f \<Rightarrow> ('w, 't, 'f) state \<Rightarrow> ('w, 't, 'f) state" where
  "printed epoch v s = \<lparr>world = world s, trace = trace s @ [(Print epoch v, Inr RNone)]\<rparr>"

text \<open>
  The validation loss, from the per-batch results \<open>rs\<close> (the loss and the length of the
  target list of every batch of \<open>valid_dl\<close>): \<^verbatim>\<open>sum(losses*nums)/sum(nums)\<close>.
\<close>

definition validation_loss :: "'f numpy \<Rightarrow> ('f \<times> int) list \<Rightarrow> 'f" where
  "validation_loss N rs =
     np_div N (np_sum N (np_multiply N (map fst rs) (map snd rs))) (sum_list (map snd rs))"

text \<open>
  One iteration of \<^verbatim>\<open>fit\<close>, for the epoch \<open>epoch\<close>, from the state \<open>s\<close> to the state \<open>s'\<close>: the
  model is put in training mode; \<open>train_dl\<close> is iterated and every batch it yields is
  trained on, in order; the model is put in evaluation mode; in no-gradient mode,
  \<open>valid_dl\<close> is iterated and the loss of every batch it yields is computed without
  optimizer, in order, the results being \<open>rs\<close>, at least one; the no-gradient mode is
  left; and \<open>V rs\<close> is printed with the epoch.
\<close>

definition epoch_done ::
  "(('f \<times> int) list \<Rightarrow> 'f) \<Rightarrow> ('w, 't, 'f) torch \<Rightarrow> ('w, 't) nn_module \<Rightarrow> ('w, 't) loss_function \<Rightarrow>
   'w optimizer \<Rightarrow> ('w, 't) loader \<Rightarrow> ('w, 't) loader \<Rightarrow> int \<Rightarrow>
   ('w, 't, 'f) state \<Rightarrow> ('w, 't, 'f) state \<Rightarrow> bool" where
  "epoch_done V T model loss_fn opt train_dl valid_dl epoch s s' \<longleftrightarrow>
     (\<exists>s1 fs s2 trs s3 s4 gs s5 rs s6.
        returns Train (\<lambda>_. RNone) (model_train model) () s s1 \<and>
        returns (Iter ''train_dl'') (\<lambda>_. RNone) train_dl fs s1 s2 \<and>
        iterated ''train_dl'' (trained T model loss_fn opt) fs s2 trs s3 \<and>
        returns Eval (\<lambda>_. RNone) (model_eval model) () s3 s4 \<and>
        returns (Iter ''valid_dl'') (\<lambda>_. RNone) valid_dl gs (no_grad_entered T s4) s5 \<and>
        iterated ''valid_dl'' (evaluated T model loss_fn) gs s5 rs s6 \<and>
        rs \<noteq> [] \<and>
        s' = printed epoch (V rs) (no_grad_exited T s6))"

text \<open>
  The validation pass of an iteration, begun in no-gradient mode in the state \<open>s\<close>, ends
  in the exception \<open>e\<close>: \<^verbatim>\<open>iter(valid_dl)\<close> raises \<open>e\<close>, or the pass over its fetches does,
  or the pass returns with no result at all and \<open>e\<close> is the \<^verbatim>\<open>ValueError\<close> of the unpacking
  \<^verbatim>\<open>losses,nums = zip(*[])\<close>. In each case the no-gradient mode is left after that, and
  nothing else is done.
\<close>

definition validation_raises ::
  "('w, 't, 'f) torch \<Rightarrow> ('w, 't) nn_module \<Rightarrow> ('w, 't) loss_function \<Rightarrow> ('w, 't) loader \<Rightarrow>
   ('w, 't, 'f) state \<Rightarrow> error \<Rightarrow> ('w, 't, 'f) state \<Rightarrow> bool" where
  "validation_raises T model loss_fn valid_dl s e s' \<longleftrightarrow>
     (\<exists>s6. s' = no_grad_exited T s6 \<and>
        (raises (Iter ''valid_dl'') valid_dl e s s6 \<or>
         (\<exists>gs s5. returns (Iter ''valid_dl'') (\<lambda>_. RNone) valid_dl gs s s5 \<and>
            (iterated_raises ''valid_dl'' (evaluated T model loss_fn)
               (step_raises T model loss_fn None) gs s5 e s6 \<or>
             (iterated ''valid_dl'' (evaluated T model loss_fn) gs s5 [] s6 \<and>
              e = ValueError)))))"

text \<open>
  An iteration of \<^verbatim>\<open>fit\<close> ends in the exception \<open>e\<close>, from \<open>s\<close> to \<open>s'\<close>: one of its calls
  raises \<open>e\<close> after the calls before it have returned, and \<open>s'\<close> is the state that the
  raising call left; or the validation pass ends in \<open>e\<close>.
\<close>

definition epoch_raises ::
  "('w, 't, 'f) torch \<Rightarrow> ('w, 't) nn_module \<Rightarrow> ('w, 't) loss_function \<Rightarrow>
   'w optimizer \<Rightarrow> ('w, 't) loader \<Rightarrow> ('w, 't) loader \<Rightarrow>
   ('w, 't, 'f) state \<Rightarrow> error \<Rightarrow> ('w, 't, 'f) state \<Rightarrow> bool" where
  "epoch_raises T model loss_fn opt train_dl valid_dl s e s' \<longleftrightarrow>
     raises Train (model_train model) e s s' \<or>
     (\<exists>s1. returns Train (\<lambda>_. RNone) (model_train model) () s s1 \<and>
        (raises (Iter ''train_dl'') train_dl e s1 s' \<or>
         (\<exists>fs s2. returns (Iter ''train_dl'') (\<lambda>_. RNone) train_dl fs s1 s2 \<and>
            (iterated_raises ''train_dl'' (trained T model loss_fn opt)
               (step_raises T model loss_fn (Some opt)) fs s2 e s' \<or>
             (\<exists>trs s3. iterated ''train_dl'' (trained T model loss_fn opt) fs s2 trs s3 \<and>
                (raises Eval (model_eval model) e s3 s' \<or>
                 (\<exists>s4. returns Eval (\<lambda>_. RNone) (model_eval model) () s3 s4 \<and>
                    validation_raises T model loss_fn valid_dl (no_grad_entered T s4) e s')))))))"

text \<open>
  \<open>n\<close> iterations, one after the other, for the epochs \<open>0\<close> to \<open>n - 1\<close>: \<open>E epoch s s'\<close> is
  one iteration, from \<open>s\<close> to \<open>s'\<close>.
\<close>

fun repeated :: "(int \<Rightarrow> 's \<Rightarrow> 's \<Rightarrow> bool) \<Rightarrow> nat \<Rightarrow> 's \<Rightarrow> 's \<Rightarrow> bool" where
  "repeated E 0 s s' \<longleftrightarrow> s' = s"
| "repeated E (Suc n) s s' \<longleftrightarrow> (\<exists>s1. repeated E n s s1 \<and> E (int n) s1 s')"

text \<open>The body of the loop of \<^verbatim>\<open>fit\<close>, for the epoch \<open>epoch\<close>.\<close>

definition epoch_body ::
  "('w, 't, 'f) torch \<Rightarrow> 'f numpy \<Rightarrow> ('w, 't) nn_module \<Rightarrow> ('w, 't) loss_function \<Rightarrow>
   'w optimizer \<Rightarrow> ('w, 't) loader \<Rightarrow> ('w, 't) loader \<Rightarrow> int \<Rightarrow> ('w, 't, 'f, unit) prog" where
  "epoch_body T N model loss_fn opt train_dl valid_dl epoch =
       bindM (call Train (\<lambda>_. RNone) (model_train model)) (\<lambda>_.
       bindM (for_in ''train_dl'' train_dl (\<lambda>b.
                bindM (liftE (unpack T b)) (\<lambda>(xb, yb).
                bindM (loss_batch T model xb yb loss_fn (Some opt)) (\<lambda>_. returnM ())))) (\<lambda>_.
       bindM (call Eval (\<lambda>_. RNone) (model_eval model)) (\<lambda>_.
       bindM (with_no_grad T
                (bindM (comprehension_in ''valid_dl'' valid_dl (\<lambda>b.
                          bindM (liftE (unpack T b)) (\<lambda>(xb, yb).
                          loss_batch T model xb yb loss_fn None)))
                   (\<lambda>rs. liftE (zip_star rs)))) (\<lambda>(losses, nums).
       (let val_loss = np_div N (np_sum N (np_multiply N losses nums)) (sum_list nums)
        in effect (Print epoch val_loss) (\<lambda>w. w))))))"

text \<open>
  A loader yields plain targets when, in every batch \<open>(xb, yb)\<close> that a pass over it
  yields, \<open>yb\<close> is neither a tuple nor a list.
\<close>

definition yields_plain_targets :: "('w, 't, 'f) torch \<Rightarrow> ('w, 't) loader \<Rightarrow> bool" where
  "yields_plain_targets T dl \<longleftrightarrow>
     (\<forall>w fs w'. dl w = (Inr fs, w') \<longrightarrow>
        (\<forall>f \<in> set fs. \<forall>w1 b w2 xb yb.
           f w1 = (Inr b, w2) \<longrightarrow> unpack T b = Inr (xb, yb) \<longrightarrow> \<not> is_listy yb))"

text \<open>
  The \<open>i\<close>-th block that \<^verbatim>\<open>simple_cnn\<close> is described to build: a convolution with
  \<open>actns[i]\<close> input channels, \<open>actns[i+1]\<close> output channels, kernel size
  \<open>kernel_szs[i]\<close>, stride \<open>strides[i]\<close> and padding \<open>kernel_szs[i] // 2\<close>, followed by
  a ReLU. Then the whole model: the blocks, one for every stride, and the
  adaptive-average-pool-and-flatten block.
\<close>

definition conv_relu_block :: "int list \<Rightarrow> int list \<Rightarrow> int list \<Rightarrow> nat \<Rightarrow> layer" where
  "conv_relu_block actns kernel_szs strides i =
     Sequential [Conv2d (actns ! i) (actns ! (i + 1)) (kernel_szs ! i) (strides ! i)
                   (kernel_szs ! i div 2) False, ReLU]"

definition cnn_described :: "int list \<Rightarrow> int list \<Rightarrow> int list \<Rightarrow> layer" where
  "cnn_described actns kernel_szs strides =
     Sequential (map (conv_relu_block actns kernel_szs strides) [0..<length strides] @
                 [Sequential [AdaptiveAvgPool2d 1, Lambda FlattenView]])"

text \<open>
  The first exception among the constructor calls that build a module, in the order of
  construction: the parts of a \<^verbatim>\<open>nn.Sequential\<close> from left to right, each with its own
  parts first, then the \<^verbatim>\<open>nn.Sequential\<close> itself. \<open>None\<close> when no call raises. A module
  is built when no call raises; otherwise the first exception is the outcome.
\<close>

fun first_some :: "'a option list \<Rightarrow> 'a option" where
  "first_some [] = None"
| "first_some (None # xs) = first_some xs"
| "first_some (Some e # xs) = Some e"

fun first_raise :: "nn_raises \<Rightarrow> layer \<Rightarrow> error option" where
  "first_raise NN (Sequential ls) =
     (case first_some (map (first_raise NN) ls) of
        Some e \<Rightarrow> Some e
      | None \<Rightarrow> NN (Sequential ls))"
| "first_raise NN (Lambda f) = None"
| "first_raise NN l = NN l"

definition built :: "nn_raises \<Rightarrow> layer \<Rightarrow> error + layer" where
  "built NN l = (case first_raise NN l of Some e \<Rightarrow> Inl e | None \<Rightarrow> Inr l)"

section \<open>A small framework for the examples\<close>

text \<open>
  A world is a pair of one model parameter and the training flag. The forward pass
  returns the parameter, the loss function adds the number of targets to it three
  times over, an optimizer step adds 10 to the parameter. A tensor is an integer, a
  number is a real. The second model raises in its forward pass when the training
  flag is off.
\<close>

definition toy_model :: "(int \<times> bool, int) nn_module" where
  "toy_model = \<lparr>model_call = (\<lambda>xs w. (Inr (fst w), w)),
                model_train = (\<lambda>w. (Inr (), (fst w, True))),
                model_eval = (\<lambda>w. (Inr (), (fst w, False)))\<rparr>"

definition eval_failing_model :: "(int \<times> bool, int) nn_module" where
  "eval_failing_model =
     \<lparr>model_call = (\<lambda>xs w. (if snd w then Inr (fst w) else Inl (Raised 1), w)),
      model_train = (\<lambda>w. (Inr (), (fst w, True))),
      model_eval = (\<lambda>w. (Inr (), (fst w, False)))\<rparr>"

definition toy_loss_fn :: "(int \<times> bool, int) loss_function" where
  "toy_loss_fn out ys = (\<lambda>w. (Inr (3 * (out + int (length ys))), w))"

definition toy_opt :: "(int \<times> bool) optimizer" where
  "toy_opt = \<lparr>opt_step = (\<lambda>w. (Inr (), (fst w + 10, snd w))),
              opt_zero_grad = (\<lambda>w. (Inr (), w))\<rparr>"

definition toy_torch :: "(int \<times> bool, int, real) torch" where
  "toy_torch = \<lparr>tensor_backward = (\<lambda>l w. (Inr (), w)),
                tensor_item = (\<lambda>l w. (Inr (real_of_int l), w)),
                no_grad_enter = (\<lambda>w. w),
                no_grad_exit = (\<lambda>w. w),
                tensor_unpack = (\<lambda>t. Inl ValueError)\<rparr>"

definition toy_numpy :: "real numpy" where
  "toy_numpy = \<lparr>np_mul = (\<lambda>l n. l * real_of_int n), np_sum = sum_list,
                np_div = (\<lambda>a b. a / real_of_int b)\<rparr>"

definition toy_state :: "(int \<times> bool, int, real) state" where
  "toy_state = \<lparr>world = (0, False), trace = []\<rparr>"

definition toy_xb :: "int tensors" where
  "toy_xb = Tensor 5"

definition toy_yb :: "int tensors" where
  "toy_yb = PyTuple [Tensor 6, Tensor 7]"

text \<open>
  A loader whose every pass yields the given batches, whatever the world, and leaves
  the world as it is.
\<close>

definition list_loader :: "'t tensors list \<Rightarrow> ('w, 't) loader" where
  "list_loader bs = (\<lambda>w. (Inr (map (\<lambda>b w'. (Inr b, w')) bs), w))"

definition toy_dataset :: "(int, int) Dataset" where
  "toy_dataset = \<lparr>ds_len = Inr 3,
                  ds_getitem = (\<lambda>idx. if 0 \<le> idx \<and> idx < 3 then Inr (10 + idx, 20 + idx)
                                      else Inl IndexError)\<rparr>"

definition toy_tfm :: "int \<Rightarrow> error + int" where
  "toy_tfm x = Inr (2 * x)"

definition toy_loader :: "(int \<times> device) DataLoader" where
  "toy_loader =
     \<lparr>dl_batches = [PyList [Tensor (1, Device ''cuda''), Tensor (2, Device ''cuda'')],
                    PyTuple [Tensor (3, Device ''cuda''), Tensor (4, Device ''cuda'')]],
      dl_len = Inr 2\<rparr>"

definition failing_tfm :: "int \<Rightarrow> error + int" where
  "failing_tfm x = Inl (Raised 2)"

definition failing_to :: "int \<times> device \<Rightarrow> device \<Rightarrow> error + int \<times> device" where
  "failing_to t d = (if fst t = 2 then Inl (Raised 3) else Inr (fst t, d))"

definition toy_to :: "int \<times> device \<Rightarrow> device \<Rightarrow> error + int \<times> device" where
  "toy_to t d = Inr (fst t, d)"

text \<open>A framework whose \<^verbatim>\<open>nn.Conv2d\<close> raises on a negative kernel size, and on nothing else.\<close>

definition toy_nn :: nn_raises where
  "toy_nn l = (case l of
       Conv2d ni nf ks stride padding bias \<Rightarrow> if ks < 0 then Some (Raised 4) else None
     | _ \<Rightarrow> None)"

section \<open>Lemmas\<close>

lemma bindE_Inr [simp]: "bindE (Inr a) f = f a"
  by (simp add: bindE_def)

lemma bindE_Inl [simp]: "bindE (Inl e) f = Inl e"
  by (simp add: bindE_def)

lemma ifnone_simps [simp]: "ifnone None b = b" "ifnone (Some a) b = a"
  by (simp_all add: ifnone_def)

lemma all_ok_simps [simp]:
  "all_ok []" "all_ok (en # es) = (ok_entry en \<and> all_ok es)"
  "all_ok (es @ es') = (all_ok es \<and> all_ok es')"
  by (simp_all add: all_ok_def)

lemma ok_entry_simps [simp]: "ok_entry (ev, Inr v)" "\<not> ok_entry (ev, Inl e)"
  by (simp_all add: ok_entry_def)

lemma ends_as_simps [simp]:
  "ends_as F (Inr a) es = all_ok es" "ends_as F (Inl e) es = F e es"
  by (simp_all add: ends_as_def)

lemma behavesI:
  assumes "\<And>s. \<exists>es. trace (snd (m s)) = trace s @ es \<and> ends_as F (fst (m s)) es"
  shows "behaves F m"
  using assms by (simp add: behaves_def)

lemma behavesD:
  assumes "behaves F m" and "m s = (r, s')"
  obtains es where "trace s' = trace s @ es" and "ends_as F r es"
proof -
  from assms(1) have "\<exists>es. trace (snd (m s)) = trace s @ es \<and> ends_as F (fst (m s)) es"
    unfolding behaves_def by (rule spec)
  then show thesis using assms(2) that by auto
qed

lemma behaves_returnM: "behaves F (returnM a)"
  by (simp add: behaves_def returnM_def)

lemma behaves_call:
  fixes f :: "('w, 'a) fw" and ev :: "('t, 'f) event"
  shows "behaves failed_last (call ev ret f)"
proof (rule behavesI)
  fix s :: "('w, 't, 'f) state"
  obtain r w' where f: "f (world s) = (r, w')" by (cases "f (world s)")
  show "\<exists>es. trace (snd (call ev ret f s)) = trace s @ es \<and>
          ends_as failed_last (fst (call ev ret f s)) es"
  proof (cases r)
    case (Inl e)
    have "failed_last e [(ev, Inl e)]"
      unfolding failed_last_def by (intro exI [of _ "[]"] exI [of _ ev]) simp
    then show ?thesis using f Inl by (simp add: call_def)
  next
    case (Inr a)
    then show ?thesis using f by (simp add: call_def)
  qed
qed

lemma ok_closedD: "ok_closed F \<Longrightarrow> all_ok pre \<Longrightarrow> F e es \<Longrightarrow> F e (pre @ es)"
  unfolding ok_closed_def by blast

lemma behaves_bindM:
  assumes m: "behaves F m" and f: "\<And>a. behaves F (f a)" and F: "ok_closed F"
  shows "behaves F (bindM m f)"
proof (rule behavesI)
  fix s
  obtain r s1 where ms: "m s = (r, s1)" by (cases "m s")
  from behavesD [OF m ms] obtain es1 where
    es1: "trace s1 = trace s @ es1" and r1: "ends_as F r es1" by blast
  show "\<exists>es. trace (snd (bindM m f s)) = trace s @ es \<and> ends_as F (fst (bindM m f s)) es"
  proof (cases r)
    case (Inl e)
    then show ?thesis using ms es1 r1 by (simp add: bindM_def)
  next
    case (Inr a)
    obtain r2 s2 where fs: "f a s1 = (r2, s2)" by (cases "f a s1")
    from behavesD [OF f fs] obtain es2 where
      es2: "trace s2 = trace s1 @ es2" and r2: "ends_as F r2 es2" by blast
    have ok1: "all_ok es1" using r1 Inr by simp
    have b: "bindM m f s = (r2, s2)" using ms Inr fs by (simp add: bindM_def)
    have "ends_as F r2 (es1 @ es2)"
      using r2 ok1 ok_closedD [OF F ok1] by (cases r2) simp_all
    then show ?thesis using b es1 es2 by simp
  qed
qed

lemma ok_closed_failed_last: "ok_closed failed_last"
proof -
  have "failed_last e (pre @ es)" if "all_ok pre" "failed_last e es" for e pre es
  proof -
    from that(2) obtain p ev where "es = p @ [(ev, Inl e)]" "all_ok p"
      by (auto simp: failed_last_def)
    with that(1) have "pre @ es = (pre @ p) @ [(ev, Inl e)]" "all_ok (pre @ p)" by simp_all
    then show ?thesis unfolding failed_last_def by blast
  qed
  then show ?thesis unfolding ok_closed_def by blast
qed

lemma behaves_loss_batch: "behaves failed_last (loss_batch T model xb yb loss_fn opt)"
proof -
  note b = behaves_bindM [OF _ _ ok_closed_failed_last]
  have upd: "behaves failed_last (case opt of
                  None \<Rightarrow> returnM ()
                | Some opt \<Rightarrow>
                    bindM (call (Backward loss) (\<lambda>_. RNone) (tensor_backward T loss)) (\<lambda>_.
                    bindM (call Step (\<lambda>_. RNone) (opt_step opt)) (\<lambda>_.
                    call ZeroGrad (\<lambda>_. RNone) (opt_zero_grad opt))))" for loss
    by (cases opt) (auto intro!: b behaves_call behaves_returnM)
  show ?thesis
    unfolding loss_batch_def Let_def
    by (intro b behaves_call behaves_returnM upd)
qed

lemma elems_listify [simp]:
  "elems (if \<not> is_listy x then PyList [x] else x) = listify x"
  by (simp add: listify_def)

lemma bindM_Inr_iff:
  "bindM m f s = (Inr b, s') \<longleftrightarrow> (\<exists>a s1. m s = (Inr a, s1) \<and> f a s1 = (Inr b, s'))"
  by (auto simp: bindM_def split: prod.splits sum.splits)

lemma call_Inr_iff:
  "call ev ret f s = (Inr a, s') \<longleftrightarrow>
     (\<exists>w'. f (world s) = (Inr a, w') \<and> s' = \<lparr>world = w', trace = trace s @ [(ev, Inr (ret a))]\<rparr>)"
  by (auto simp: call_def split: prod.splits sum.splits)

lemma returnM_Inr_iff: "returnM a s = (Inr b, s') \<longleftrightarrow> b = a \<and> s' = s"
  by (auto simp: returnM_def)

lemma effect_iff: "effect ev f s = (r, s') \<longleftrightarrow>
    r = Inr () \<and> s' = \<lparr>world = f (world s), trace = trace s @ [(ev, Inr RNone)]\<rparr>"
  by (auto simp: effect_def)

lemma liftE_Inr_iff: "liftE x s = (Inr a, s') \<longleftrightarrow> x = Inr a \<and> s' = s"
  by (auto simp: liftE_def returnM_def raiseM_def split: sum.splits)

lemma zip_star_Inr_iff:
  "zip_star rs = Inr (ls, ns) \<longleftrightarrow> rs \<noteq> [] \<and> ls = map fst rs \<and> ns = map snd rs"
  by (auto simp: zip_star_def)

lemma with_no_grad_iff:
  "with_no_grad T body s = (r, s') \<longleftrightarrow>
     (\<exists>s2. body \<lparr>world = no_grad_enter T (world s), trace = trace s @ [(NoGradEnter, Inr RNone)]\<rparr> = (r, s2)
        \<and> s' = \<lparr>world = no_grad_exit T (world s2), trace = trace s2 @ [(NoGradExit, Inr RNone)]\<rparr>)"
  by (auto simp: with_no_grad_def effect_def split: prod.splits)

lemma loss_batch_None_Inr:
  assumes "loss_batch T model xb yb loss_fn None s = (Inr (item, n), s')"
  shows "n = int (length (listify yb)) \<and>
     (\<exists>out loss. trace s' = trace s @ valid_batch_entries (xb, yb) (out, loss, item))"
  using assms unfolding loss_batch_def Let_def elems_listify
  by (auto simp: bindM_Inr_iff call_Inr_iff returnM_Inr_iff valid_batch_entries_def)

lemma behaves_run:
  assumes "behaves F m" and "m s = (r, s')"
  shows "trace s' = trace s @ new_entries s s'" and "ends_as F r (new_entries s s')"
proof -
  from behavesD [OF assms] obtain es where es: "trace s' = trace s @ es"
    and r: "ends_as F r es" by blast
  then have "es = new_entries s s'" by (simp add: new_entries_def)
  with es r show "trace s' = trace s @ new_entries s s'" and "ends_as F r (new_entries s s')"
    by simp_all
qed

lemma keeps_returnM: "keeps obs (returnM a)"
  by (simp add: keeps_def returnM_def)

lemma keeps_call:
  fixes f :: "('w, 'a) fw" and ev :: "('t, 'f) event"
  assumes "fw_keeps obs f"
  shows "keeps obs (call ev ret f)"
proof -
  have "obs (world (snd (call ev ret f s))) = obs (world s)" for s :: "('w, 't, 'f) state"
  proof -
    obtain r w' where f: "f (world s) = (r, w')" by (cases "f (world s)")
    from assms have "obs (snd (f (world s))) = obs (world s)"
      unfolding fw_keeps_def by blast
    then show ?thesis using f by (simp add: call_def)
  qed
  then show ?thesis by (simp add: keeps_def)
qed

lemma keeps_bindM:
  assumes "keeps obs m" and "\<And>a. keeps obs (f a)"
  shows "keeps obs (bindM m f)"
proof -
  have "obs (world (snd (bindM m f s))) = obs (world s)" for s
  proof -
    obtain r s1 where ms: "m s = (r, s1)" by (cases "m s")
    from assms(1) ms have 1: "obs (world s1) = obs (world s)"
      unfolding keeps_def by (metis snd_conv)
    show ?thesis
    proof (cases r)
      case (Inl e)
      then show ?thesis using ms 1 by (simp add: bindM_def)
    next
      case (Inr a)
      from assms(2) [of a] have "obs (world (snd (f a s1))) = obs (world s1)"
        unfolding keeps_def by blast
      then show ?thesis using ms Inr 1 by (simp add: bindM_def)
    qed
  qed
  then show ?thesis by (simp add: keeps_def)
qed

lemma keeps_loss_batch_None:
  assumes "\<And>xs. fw_keeps obs (model_call model xs)"
    and "\<And>out ys. fw_keeps obs (loss_fn out ys)"
    and "\<And>loss. fw_keeps obs (tensor_item T loss)"
  shows "keeps obs (loss_batch T model xb yb loss_fn None)"
  unfolding loss_batch_def Let_def option.case
  by (intro keeps_bindM keeps_call keeps_returnM assms)

lemma loss_batch_None_events:
  "loss_batch T model xb yb loss_fn None s = (r, s') \<Longrightarrow>
     list_all (\<lambda>en. forward_loss_item (fst en)) (new_entries s s')"
  by (auto simp: loss_batch_def new_entries_def bindM_def call_def returnM_def Let_def
           split: prod.splits sum.splits)

lemma np_multiply_ones:
  assumes "\<forall>x. np_mul N x 1 = x" and "length items = n"
  shows "np_multiply N items (replicate n 1) = items"
  using assms(2)
proof (induction items arbitrary: n)
  case Nil
  then show ?case by (simp add: np_multiply_def)
next
  case (Cons x xs)
  then obtain m where n: "n = Suc m" and m: "length xs = m" by (cases n) auto
  from Cons.IH [OF m] assms(1) show ?case
    by (simp add: n np_multiply_def)
qed

lemma collect_Inl: "collect xs = Inl e \<Longrightarrow> Inl e \<in> set xs"
proof (induction xs)
  case Nil
  then show ?case by simp
next
  case (Cons x xs)
  then show ?case
    by (cases x; cases "collect xs") auto
qed

lemma to_device_Inl:
  "to_device tensor_to dflt b device = Inl e \<Longrightarrow>
     \<exists>t \<in> set (leaves b). tensor_to t (ifnone device dflt) = Inl e"
proof (induction b arbitrary: device)
  case (Tensor t)
  then show ?case by (cases "tensor_to t (ifnone device dflt)") auto
next
  case (PyList os)
  let ?f = "\<lambda>o'. to_device tensor_to dflt o' (Some (ifnone device dflt))"
  from PyList.prems have "collect (map ?f os) = Inl e"
    by (cases "collect (map ?f os)") auto
  from collect_Inl [OF this] obtain o' where o': "o' \<in> set os" "?f o' = Inl e" by auto
  from PyList.IH [OF o'] o'(1) show ?case by auto
next
  case (PyTuple os)
  let ?f = "\<lambda>o'. to_device tensor_to dflt o' (Some (ifnone device dflt))"
  from PyTuple.prems have "collect (map ?f os) = Inl e"
    by (cases "collect (map ?f os)") auto
  from collect_Inl [OF this] obtain o' where o': "o' \<in> set os" "?f o' = Inl e" by auto
  from PyTuple.IH [OF o'] o'(1) show ?case by auto
qed

lemma collect_list_all2:
  "collect (map f xs) = Inr rs \<Longrightarrow> list_all2 (\<lambda>x r. f x = Inr r) xs rs"
proof (induction xs arbitrary: rs)
  case Nil
  then show ?case by simp
next
  case (Cons x xs)
  then show ?case
    by (cases "f x"; cases "collect (map f xs)") auto
qed

lemma to_device_None: "to_device tensor_to dflt b None = to_device tensor_to dflt b (Some dflt)"
  by (cases b) simp_all

lemma to_device_listy:
  "is_listy b \<Longrightarrow> to_device tensor_to dflt b device =
     bindE (collect (map (\<lambda>o'. to_device tensor_to dflt o' (Some (ifnone device dflt))) (elems b)))
       (\<lambda>rs. Inr (PyList rs))"
  by (cases b) simp_all

lemma to_device_Inr:
  "to_device tensor_to dflt b device = Inr r \<Longrightarrow>
     map Inr (leaves r) = map (\<lambda>t. tensor_to t (ifnone device dflt)) (leaves b) \<and> lists_only r"
proof (induction b arbitrary: device r)
  case (Tensor t)
  then show ?case by (cases "tensor_to t (ifnone device dflt)") auto
next
  case (PyList os)
  let ?d = "ifnone device dflt"
  let ?f = "\<lambda>o'. to_device tensor_to dflt o' (Some ?d)"
  from PyList.prems obtain rs where c: "collect (map ?f os) = Inr rs" and r: "r = PyList rs"
    by (cases "collect (map ?f os)") auto
  from collect_list_all2 [OF c] have "list_all2 (\<lambda>x r. ?f x = Inr r) os rs" .
  then have "map Inr (concat (map leaves rs)) = map (\<lambda>t. tensor_to t ?d) (concat (map leaves os))
      \<and> list_all lists_only rs"
    using PyList.IH
  proof (induction os rs rule: list_all2_induct)
    case Nil
    then show ?case by simp
  next
    case (Cons x xs y ys)
    from Cons.prems [of x "Some ?d" y] Cons.hyps(1)
    have "map Inr (leaves y) = map (\<lambda>t. tensor_to t ?d) (leaves x) \<and> lists_only y" by simp
    moreover have "map Inr (concat (map leaves ys)) = map (\<lambda>t. tensor_to t ?d) (concat (map leaves xs))
      \<and> list_all lists_only ys"
      by (rule Cons.IH) (use Cons.prems in auto)
    ultimately show ?case by simp
  qed
  with r show ?case by simp
next
  case (PyTuple os)
  let ?d = "ifnone device dflt"
  let ?f = "\<lambda>o'. to_device tensor_to dflt o' (Some ?d)"
  from PyTuple.prems obtain rs where c: "collect (map ?f os) = Inr rs" and r: "r = PyList rs"
    by (cases "collect (map ?f os)") auto
  from collect_list_all2 [OF c] have "list_all2 (\<lambda>x r. ?f x = Inr r) os rs" .
  then have "map Inr (concat (map leaves rs)) = map (\<lambda>t. tensor_to t ?d) (concat (map leaves os))
      \<and> list_all lists_only rs"
    using PyTuple.IH
  proof (induction os rs rule: list_all2_induct)
    case Nil
    then show ?case by simp
  next
    case (Cons x xs y ys)
    from Cons.prems [of x "Some ?d" y] Cons.hyps(1)
    have "map Inr (leaves y) = map (\<lambda>t. tensor_to t ?d) (leaves x) \<and> lists_only y" by simp
    moreover have "map Inr (concat (map leaves ys)) = map (\<lambda>t. tensor_to t ?d) (concat (map leaves xs))
      \<and> list_all lists_only ys"
      by (rule Cons.IH) (use Cons.prems in auto)
    ultimately show ?case by simp
  qed
  with r show ?case by simp
qed

lemmas toy_defs = toy_model_def toy_loss_fn_def toy_opt_def toy_torch_def toy_numpy_def
  toy_state_def eval_failing_model_def
lemmas run_defs = fit_def loss_batch_def bindM_def returnM_def raiseM_def call_def effect_def
  with_no_grad_def liftE_def zip_star_def np_multiply_def Let_def listify_def

lemma toy_loss_batch_opt:
  "loss_batch toy_torch toy_model toy_xb toy_yb toy_loss_fn (Some toy_opt) toy_state =
   (Inr (6, 2),
    \<lparr>world = (10, False),
     trace =
       [(Forward [Tensor 5], Inr (RTensor 0)),
        (LossFn 0 [Tensor 6, Tensor 7], Inr (RTensor 6)),
        (Backward 6, Inr RNone), (Step, Inr RNone), (ZeroGrad, Inr RNone),
        (Item 6, Inr (RFloat 6))]\<rparr>)"
  by (simp add: toy_defs run_defs toy_xb_def toy_yb_def)

lemma toy_loss_batch_None:
  "loss_batch toy_torch toy_model toy_xb toy_yb toy_loss_fn None toy_state =
   (Inr (6, 2),
    \<lparr>world = (0, False),
     trace =
       [(Forward [Tensor 5], Inr (RTensor 0)),
        (LossFn 0 [Tensor 6, Tensor 7], Inr (RTensor 6)),
        (Item 6, Inr (RFloat 6))]\<rparr>)"
  by (simp add: toy_defs run_defs toy_xb_def toy_yb_def)

lemma toy_state_simps: "trace toy_state = []" "world toy_state = (0, False)"
  by (simp_all add: toy_state_def)

subsection \<open>The batch step, call by call\<close>

lemma call_returns: "call ev ret f s = (Inr a, s') \<longleftrightarrow> returns ev ret f a s s'"
  by (auto simp: call_def returns_def split: prod.splits sum.splits)

lemma call_raises: "call ev ret f s = (Inl e, s') \<longleftrightarrow> raises ev f e s s'"
  by (auto simp: call_def raises_def split: prod.splits sum.splits)

lemma bindM_Inl_iff:
  "bindM m f s = (Inl e, s') \<longleftrightarrow>
     m s = (Inl e, s') \<or> (\<exists>a s1. m s = (Inr a, s1) \<and> f a s1 = (Inl e, s'))"
  by (auto simp: bindM_def split: prod.splits sum.splits)

lemma returnM_Inl_iff: "returnM a s = (Inl e, s') \<longleftrightarrow> False"
  by (simp add: returnM_def)

lemma liftE_Inl_iff: "liftE x s = (Inl e, s') \<longleftrightarrow> x = Inl e \<and> s' = s"
  by (auto simp: liftE_def returnM_def raiseM_def split: sum.splits)

lemma loss_batch_Some_returns:
  "loss_batch T model xb yb loss_fn (Some opt) s = (Inr res, s') \<longleftrightarrow>
     batch_trained T model loss_fn opt xb yb s res s'"
  unfolding loss_batch_def Let_def elems_listify batch_trained_def option.case
  by (simp add: bindM_Inr_iff call_returns returnM_Inr_iff) blast

lemma loss_batch_None_returns:
  "loss_batch T model xb yb loss_fn None s = (Inr res, s') \<longleftrightarrow>
     batch_evaluated T model loss_fn xb yb s res s'"
  unfolding loss_batch_def Let_def elems_listify batch_evaluated_def option.case
  by (simp add: bindM_Inr_iff call_returns returnM_Inr_iff) blast

lemma loss_batch_raises:
  "loss_batch T model xb yb loss_fn opt s = (Inl e, s') \<longleftrightarrow>
     batch_raises T model loss_fn opt xb yb s e s'"
proof (cases opt)
  case None
  show ?thesis
    unfolding loss_batch_def Let_def elems_listify batch_raises_def None option.case
    by (simp add: bindM_Inl_iff bindM_Inr_iff call_returns call_raises returnM_Inr_iff
          returnM_Inl_iff)
next
  case (Some o')
  show ?thesis
    unfolding loss_batch_def Let_def elems_listify batch_raises_def Some option.case
    by (simp add: bindM_Inl_iff bindM_Inr_iff call_returns call_raises returnM_Inr_iff
          returnM_Inl_iff) blast
qed

subsection \<open>Layer factories\<close>

lemma first_some_Cons:
  "first_some (x # xs) = (case x of Some e \<Rightarrow> Some e | None \<Rightarrow> first_some xs)"
  by (cases x) simp_all

lemma first_some_append:
  "first_some (xs @ ys) = (case first_some xs of Some e \<Rightarrow> Some e | None \<Rightarrow> first_some ys)"
  by (induction xs rule: first_some.induct) simp_all

lemma conv2d_built:
  "conv2d NN ni nf ks stride padding bias =
     built NN (Conv2d ni nf ks stride (case padding of None \<Rightarrow> ks div 2 | Some p \<Rightarrow> p) bias)"
  by (simp add: conv2d_def built_def nn_def Let_def)

lemma conv2d_trans_built:
  "conv2d_trans NN ni nf ks stride padding = built NN (ConvTranspose2d ni nf ks stride padding)"
  by (simp add: conv2d_trans_def built_def nn_def)

lemma conv2d_relu_built:
  "conv2d_relu NN ni nf ks stride padding bn =
     built NN (Sequential ([Conv2d ni nf ks stride (case padding of None \<Rightarrow> ks div 2 | Some p \<Rightarrow> p) False, ReLU]
                     @ (if bn then [BatchNorm2d nf] else [])))"
  by (cases bn)
     (simp_all add: conv2d_relu_def conv2d_built built_def nn_def first_some_Cons
        split: option.splits)

lemma PoolFlatten_built:
  "PoolFlatten NN = built NN (Sequential [AdaptiveAvgPool2d 1, Lambda FlattenView])"
  by (simp add: PoolFlatten_def Flatten_def built_def nn_def split: option.splits)

lemma collect_built:
  "collect (map (\<lambda>x. built NN (g x)) xs) =
     (case first_some (map (\<lambda>x. first_raise NN (g x)) xs) of
        Some e \<Rightarrow> Inl e | None \<Rightarrow> Inr (map g xs))"
  by (induction xs) (auto simp: built_def split: option.splits)

lemma simple_cnn_built:
  assumes "length strides + 1 \<le> length actns" and "length strides \<le> length kernel_szs"
  shows "simple_cnn NN actns kernel_szs strides = built NN (cnn_described actns kernel_szs strides)"
proof -
  have m: "map (\<lambda>i.
        bindE (py_getitem actns i) (\<lambda>ni.
        bindE (py_getitem actns (i + 1)) (\<lambda>nf.
        bindE (py_getitem kernel_szs i) (\<lambda>ks.
        bindE (py_getitem strides i) (\<lambda>stride.
        conv2d_relu NN ni nf ks stride None False)))))
        [0..<length strides]
      = map (\<lambda>i. built NN (conv_relu_block actns kernel_szs strides i)) [0..<length strides]"
    using assms by (intro map_cong refl) (simp add: py_getitem_def conv2d_relu_built conv_relu_block_def)
  show ?thesis
    unfolding simple_cnn_def m collect_built PoolFlatten_built
    by (simp add: cnn_described_def first_some_append first_some_Cons
          built_def nn_def comp_def split: option.splits)
qed

subsection \<open>Passes over a loader\<close>

lemma for_each_fetch_returns:
  fixes body :: "'t tensors \<Rightarrow> ('w, 't, 'f, unit) prog"
  assumes "\<And>b s s'. body b s = (Inr (), s') \<longleftrightarrow> (\<exists>r. B b s r s')"
  shows "for_each fs (\<lambda>f. bindM (call (Next name) RBatch f) body) s = (Inr (), s') \<longleftrightarrow>
           (\<exists>rs. iterated name B fs s rs s')"
proof (induction fs arbitrary: s)
  case Nil
  show ?case by (auto simp: returnM_Inr_iff)
next
  case (Cons f fs)
  show ?case
    by (simp add: bindM_Inr_iff call_returns assms Cons.IH) blast
qed

lemma for_each_fetch_raises:
  fixes body :: "'t tensors \<Rightarrow> ('w, 't, 'f, unit) prog"
  assumes "\<And>b s s'. body b s = (Inr (), s') \<longleftrightarrow> (\<exists>r. B b s r s')"
    and "\<And>b s e s'. body b s = (Inl e, s') \<longleftrightarrow> BF b s e s'"
  shows "for_each fs (\<lambda>f. bindM (call (Next name) RBatch f) body) s = (Inl e, s') \<longleftrightarrow>
           iterated_raises name B BF fs s e s'"
proof (induction fs arbitrary: s)
  case Nil
  show ?case by (simp add: returnM_Inl_iff)
next
  case (Cons f fs)
  show ?case
    by (simp add: bindM_Inl_iff bindM_Inr_iff call_returns call_raises assms Cons.IH) blast
qed

lemma comprehension_fetch_returns:
  fixes f :: "'t tensors \<Rightarrow> ('w, 't, 'f, 'r) prog"
  assumes "\<And>b s r s'. f b s = (Inr r, s') \<longleftrightarrow> B b s r s'"
  shows "comprehension fs (\<lambda>g. bindM (call (Next name) RBatch g) f) s = (Inr rs, s') \<longleftrightarrow>
           iterated name B fs s rs s'"
proof (induction fs arbitrary: s rs)
  case Nil
  show ?case by (auto simp: returnM_Inr_iff)
next
  case (Cons g fs)
  show ?case
    by (simp add: bindM_Inr_iff call_returns returnM_Inr_iff assms Cons.IH) blast
qed

lemma comprehension_fetch_raises:
  fixes f :: "'t tensors \<Rightarrow> ('w, 't, 'f, 'r) prog"
  assumes "\<And>b s r s'. f b s = (Inr r, s') \<longleftrightarrow> B b s r s'"
    and "\<And>b s e s'. f b s = (Inl e, s') \<longleftrightarrow> BF b s e s'"
  shows "comprehension fs (\<lambda>g. bindM (call (Next name) RBatch g) f) s = (Inl e, s') \<longleftrightarrow>
           iterated_raises name B BF fs s e s'"
proof (induction fs arbitrary: s)
  case Nil
  show ?case by (simp add: returnM_Inl_iff)
next
  case (Cons g fs)
  show ?case
    by (simp add: bindM_Inl_iff bindM_Inr_iff call_returns call_raises returnM_Inl_iff assms
          Cons.IH comprehension_fetch_returns [of f B, OF assms(1)]) blast
qed

subsection \<open>The steps of fit on a batch\<close>

lemma train_step_returns:
  "bindM (liftE (unpack T b)) (\<lambda>(xb, yb).
     bindM (loss_batch T model xb yb loss_fn (Some opt)) (\<lambda>_. returnM ())) s = (Inr (), s') \<longleftrightarrow>
   (\<exists>r. trained T model loss_fn opt b s r s')"
  by (auto simp: bindM_Inr_iff liftE_Inr_iff returnM_Inr_iff loss_batch_Some_returns trained_def)

lemma train_step_raises:
  "bindM (liftE (unpack T b)) (\<lambda>(xb, yb).
     bindM (loss_batch T model xb yb loss_fn (Some opt)) (\<lambda>_. returnM ())) s = (Inl e, s') \<longleftrightarrow>
   step_raises T model loss_fn (Some opt) b s e s'"
  by (auto simp: bindM_Inl_iff bindM_Inr_iff liftE_Inr_iff liftE_Inl_iff returnM_Inl_iff
        loss_batch_raises step_raises_def)

lemma valid_step_returns:
  "bindM (liftE (unpack T b)) (\<lambda>(xb, yb). loss_batch T model xb yb loss_fn None) s = (Inr r, s') \<longleftrightarrow>
   evaluated T model loss_fn b s r s'"
  by (auto simp: bindM_Inr_iff liftE_Inr_iff loss_batch_None_returns evaluated_def)

lemma valid_step_raises:
  "bindM (liftE (unpack T b)) (\<lambda>(xb, yb). loss_batch T model xb yb loss_fn None) s = (Inl e, s') \<longleftrightarrow>
   step_raises T model loss_fn None b s e s'"
  by (auto simp: bindM_Inl_iff liftE_Inr_iff liftE_Inl_iff loss_batch_raises step_raises_def)

subsection \<open>The iterations of fit\<close>

lemma fit_epoch_body:
  "fit T N epochs model loss_fn opt train_dl valid_dl =
     for_each (py_range epochs) (epoch_body T N model loss_fn opt train_dl valid_dl)"
  unfolding fit_def epoch_body_def by (rule refl)

lemma with_no_grad_run:
  "with_no_grad T body s = (r, s') \<longleftrightarrow>
     (\<exists>s2. body (no_grad_entered T s) = (r, s2) \<and> s' = no_grad_exited T s2)"
  by (simp add: with_no_grad_iff no_grad_entered_def no_grad_exited_def)

lemma effect_Print:
  "effect (Print epoch v) (\<lambda>w. w) s = (r, s') \<longleftrightarrow> r = Inr () \<and> s' = printed epoch v s"
  by (simp add: effect_iff printed_def)

lemma train_loop_returns:
  "for_in ''train_dl'' train_dl (\<lambda>b.
      bindM (liftE (unpack T b)) (\<lambda>(xb, yb).
      bindM (loss_batch T model xb yb loss_fn (Some opt)) (\<lambda>_. returnM ()))) s = (Inr (), s') \<longleftrightarrow>
   (\<exists>fs s2 trs. returns (Iter ''train_dl'') (\<lambda>_. RNone) train_dl fs s s2 \<and>
      iterated ''train_dl'' (trained T model loss_fn opt) fs s2 trs s')"
  unfolding for_in_def
  by (simp add: bindM_Inr_iff [where m = "call ev ret f" for ev ret f] call_returns
        for_each_fetch_returns [where B = "trained T model loss_fn opt", OF train_step_returns])

lemma train_loop_raises:
  "for_in ''train_dl'' train_dl (\<lambda>b.
      bindM (liftE (unpack T b)) (\<lambda>(xb, yb).
      bindM (loss_batch T model xb yb loss_fn (Some opt)) (\<lambda>_. returnM ()))) s = (Inl e, s') \<longleftrightarrow>
   raises (Iter ''train_dl'') train_dl e s s' \<or>
   (\<exists>fs s2. returns (Iter ''train_dl'') (\<lambda>_. RNone) train_dl fs s s2 \<and>
      iterated_raises ''train_dl'' (trained T model loss_fn opt)
        (step_raises T model loss_fn (Some opt)) fs s2 e s')"
  unfolding for_in_def
  by (simp add: bindM_Inl_iff [where m = "call ev ret f" for ev ret f] call_returns call_raises
        for_each_fetch_raises [where B = "trained T model loss_fn opt" and
          BF = "step_raises T model loss_fn (Some opt)", OF train_step_returns train_step_raises])

lemma valid_loop_returns:
  "comprehension_in ''valid_dl'' valid_dl (\<lambda>b.
      bindM (liftE (unpack T b)) (\<lambda>(xb, yb). loss_batch T model xb yb loss_fn None)) s
     = (Inr rs, s') \<longleftrightarrow>
   (\<exists>gs s5. returns (Iter ''valid_dl'') (\<lambda>_. RNone) valid_dl gs s s5 \<and>
      iterated ''valid_dl'' (evaluated T model loss_fn) gs s5 rs s')"
  unfolding comprehension_in_def
  by (simp add: bindM_Inr_iff [where m = "call ev ret f" for ev ret f] call_returns
        comprehension_fetch_returns [where B = "evaluated T model loss_fn", OF valid_step_returns])

lemma valid_loop_raises:
  "comprehension_in ''valid_dl'' valid_dl (\<lambda>b.
      bindM (liftE (unpack T b)) (\<lambda>(xb, yb). loss_batch T model xb yb loss_fn None)) s
     = (Inl e, s') \<longleftrightarrow>
   raises (Iter ''valid_dl'') valid_dl e s s' \<or>
   (\<exists>gs s5. returns (Iter ''valid_dl'') (\<lambda>_. RNone) valid_dl gs s s5 \<and>
      iterated_raises ''valid_dl'' (evaluated T model loss_fn)
        (step_raises T model loss_fn None) gs s5 e s')"
  unfolding comprehension_in_def
  by (simp add: bindM_Inl_iff [where m = "call ev ret f" for ev ret f] call_returns call_raises
        comprehension_fetch_raises [where B = "evaluated T model loss_fn" and
          BF = "step_raises T model loss_fn None", OF valid_step_returns valid_step_raises])

lemma validation_returns:
  "with_no_grad T
     (bindM (comprehension_in ''valid_dl'' valid_dl (\<lambda>b.
               bindM (liftE (unpack T b)) (\<lambda>(xb, yb). loss_batch T model xb yb loss_fn None)))
        (\<lambda>rs. liftE (zip_star rs))) s = (Inr (losses, nums), s') \<longleftrightarrow>
   (\<exists>gs s5 rs s6. returns (Iter ''valid_dl'') (\<lambda>_. RNone) valid_dl gs (no_grad_entered T s) s5 \<and>
      iterated ''valid_dl'' (evaluated T model loss_fn) gs s5 rs s6 \<and> rs \<noteq> [] \<and>
      losses = map fst rs \<and> nums = map snd rs \<and> s' = no_grad_exited T s6)"
  unfolding with_no_grad_run
  by (simp add: bindM_Inr_iff liftE_Inr_iff zip_star_Inr_iff valid_loop_returns) blast

lemma zip_star_Inl_iff: "zip_star rs = Inl e \<longleftrightarrow> rs = [] \<and> e = ValueError"
  by (auto simp: zip_star_def)

lemma validation_raises_iff:
  "with_no_grad T
     (bindM (comprehension_in ''valid_dl'' valid_dl (\<lambda>b.
               bindM (liftE (unpack T b)) (\<lambda>(xb, yb). loss_batch T model xb yb loss_fn None)))
        (\<lambda>rs. liftE (zip_star rs))) s = (Inl e, s') \<longleftrightarrow>
   validation_raises T model loss_fn valid_dl (no_grad_entered T s) e s'"
  unfolding with_no_grad_run validation_raises_def
  by (simp add: bindM_Inl_iff liftE_Inl_iff zip_star_Inl_iff valid_loop_returns valid_loop_raises)
     blast

lemma epoch_body_returns:
  "epoch_body T N model loss_fn opt train_dl valid_dl epoch s = (Inr (), s') \<longleftrightarrow>
     epoch_done (validation_loss N) T model loss_fn opt train_dl valid_dl epoch s s'"
proof -
  have "epoch_body T N model loss_fn opt train_dl valid_dl epoch s = (Inr (), s') \<longleftrightarrow>
    (\<exists>s1. returns Train (\<lambda>_. RNone) (model_train model) () s s1 \<and>
      (\<exists>s3. (\<exists>fs s2 trs. returns (Iter ''train_dl'') (\<lambda>_. RNone) train_dl fs s1 s2 \<and>
                iterated ''train_dl'' (trained T model loss_fn opt) fs s2 trs s3) \<and>
        (\<exists>s4. returns Eval (\<lambda>_. RNone) (model_eval model) () s3 s4 \<and>
          (\<exists>gs s5 rs s6.
              returns (Iter ''valid_dl'') (\<lambda>_. RNone) valid_dl gs (no_grad_entered T s4) s5 \<and>
              iterated ''valid_dl'' (evaluated T model loss_fn) gs s5 rs s6 \<and> rs \<noteq> [] \<and>
              s' = printed epoch (validation_loss N rs) (no_grad_exited T s6)))))"
    unfolding epoch_body_def
    by (simp add: bindM_Inr_iff call_returns train_loop_returns validation_returns effect_Print
          validation_loss_def Let_def) blast
  also have "\<dots> \<longleftrightarrow> epoch_done (validation_loss N) T model loss_fn opt train_dl valid_dl epoch s s'"
    unfolding epoch_done_def by blast
  finally show ?thesis .
qed

lemma epoch_body_raises:
  "epoch_body T N model loss_fn opt train_dl valid_dl epoch s = (Inl e, s') \<longleftrightarrow>
     epoch_raises T model loss_fn opt train_dl valid_dl s e s'"
proof -
  have no_print: "effect ev f s1 = (Inl e, s') \<longleftrightarrow> False"
    for ev :: "('b, 'c) event" and f and s1 :: "('a, 'b, 'c) state"
    by (simp add: effect_iff)
  have "epoch_body T N model loss_fn opt train_dl valid_dl epoch s = (Inl e, s') \<longleftrightarrow>
    raises Train (model_train model) e s s' \<or>
    (\<exists>s1. returns Train (\<lambda>_. RNone) (model_train model) () s s1 \<and>
       ((raises (Iter ''train_dl'') train_dl e s1 s' \<or>
         (\<exists>fs s2. returns (Iter ''train_dl'') (\<lambda>_. RNone) train_dl fs s1 s2 \<and>
            iterated_raises ''train_dl'' (trained T model loss_fn opt)
              (step_raises T model loss_fn (Some opt)) fs s2 e s')) \<or>
        (\<exists>s3. (\<exists>fs s2 trs. returns (Iter ''train_dl'') (\<lambda>_. RNone) train_dl fs s1 s2 \<and>
                  iterated ''train_dl'' (trained T model loss_fn opt) fs s2 trs s3) \<and>
           (raises Eval (model_eval model) e s3 s' \<or>
            (\<exists>s4. returns Eval (\<lambda>_. RNone) (model_eval model) () s3 s4 \<and>
               validation_raises T model loss_fn valid_dl (no_grad_entered T s4) e s')))))"
    unfolding epoch_body_def
    by (simp add: bindM_Inl_iff bindM_Inr_iff call_returns call_raises train_loop_returns
          train_loop_raises validation_raises_iff no_print Let_def)
  also have "\<dots> \<longleftrightarrow> epoch_raises T model loss_fn opt train_dl valid_dl s e s'"
    unfolding epoch_raises_def by blast
  finally show ?thesis .
qed

lemma py_range_Suc: "py_range (int (Suc n)) = py_range (int n) @ [int n]"
  unfolding py_range_def nat_int by simp

lemma py_range_nat: "py_range epochs = py_range (int (nat epochs))"
  by (simp add: py_range_def)

lemma for_each_append:
  "for_each (xs @ ys) body = bindM (for_each xs body) (\<lambda>_. for_each ys body)"
proof (induction xs)
  case Nil
  show ?case by (simp add: bindM_def returnM_def)
next
  case (Cons x xs)
  have assoc: "bindM (bindM m f) g = bindM m (\<lambda>a. bindM (f a) g)" for m f g
    by (auto simp: bindM_def fun_eq_iff split: prod.splits sum.splits)
  show ?case by (simp add: Cons.IH assoc)
qed

lemma epochs_return:
  assumes "\<And>epoch s s'. body epoch s = (Inr (), s') \<longleftrightarrow> E epoch s s'"
  shows "for_each (py_range (int n)) body s = (Inr (), s') \<longleftrightarrow> repeated E n s s'"
proof (induction n arbitrary: s')
  case 0
  show ?case by (auto simp: py_range_def returnM_Inr_iff)
next
  case (Suc n)
  show ?case
    by (simp add: py_range_Suc for_each_append bindM_Inr_iff returnM_Inr_iff Suc.IH assms
          del: of_nat_Suc)
qed

lemma epochs_raise:
  assumes "\<And>epoch s s'. body epoch s = (Inr (), s') \<longleftrightarrow> E epoch s s'"
    and "\<And>epoch s e s'. body epoch s = (Inl e, s') \<longleftrightarrow> F s e s'"
  shows "for_each (py_range (int n)) body s = (Inl e, s') \<longleftrightarrow>
           (\<exists>k s1. k < n \<and> repeated E k s s1 \<and> F s1 e s')"
proof (induction n arbitrary: s')
  case 0
  show ?case by (simp add: py_range_def returnM_Inl_iff)
next
  case (Suc n)
  have "for_each (py_range (int (Suc n))) body s = (Inl e, s') \<longleftrightarrow>
      (\<exists>k s1. k < n \<and> repeated E k s s1 \<and> F s1 e s') \<or> (\<exists>s1. repeated E n s s1 \<and> F s1 e s')"
    by (simp add: py_range_Suc for_each_append bindM_Inl_iff bindM_Inr_iff returnM_Inr_iff
          returnM_Inl_iff Suc.IH assms epochs_return [of body E, OF assms(1)] del: of_nat_Suc)
  also have "\<dots> \<longleftrightarrow> (\<exists>k s1. k < Suc n \<and> repeated E k s s1 \<and> F s1 e s')"
    by (auto simp: less_Suc_eq)
  finally show ?case .
qed

lemma fit_returns:
  "fit T N epochs model loss_fn opt train_dl valid_dl s = (Inr (), s') \<longleftrightarrow>
     repeated (epoch_done (validation_loss N) T model loss_fn opt train_dl valid_dl)
       (nat epochs) s s'"
  unfolding fit_epoch_body py_range_nat [of epochs]
  by (rule epochs_return) (rule epoch_body_returns)

lemma fit_raises:
  "fit T N epochs model loss_fn opt train_dl valid_dl s = (Inl e, s') \<longleftrightarrow>
     (\<exists>k s1. k < nat epochs \<and>
        repeated (epoch_done (validation_loss N) T model loss_fn opt train_dl valid_dl) k s s1 \<and>
        epoch_raises T model loss_fn opt train_dl valid_dl s1 e s')"
  unfolding fit_epoch_body py_range_nat [of epochs]
  by (rule epochs_raise) (rule epoch_body_returns, rule epoch_body_raises)

subsection \<open>The validation loss on plain targets\<close>

lemma evaluated_plain_count:
  assumes "iterated name (evaluated T model loss_fn) gs s rs s'"
    and "\<forall>g \<in> set gs. \<forall>w1 b w2 xb yb.
           g w1 = (Inr b, w2) \<longrightarrow> unpack T b = Inr (xb, yb) \<longrightarrow> \<not> is_listy yb"
  shows "map snd rs = replicate (length rs) 1"
  using assms
proof (induction gs arbitrary: s rs)
  case Nil
  then show ?case by simp
next
  case (Cons g gs)
  from Cons.prems(1) obtain b s1 r s2 rs' where
    nx: "returns (Next name) RBatch g b s s1" and ev: "evaluated T model loss_fn b s1 r s2" and
    rest: "iterated name (evaluated T model loss_fn) gs s2 rs' s'" and rs: "rs = r # rs'"
    by auto
  from ev obtain xb yb where un: "unpack T b = Inr (xb, yb)"
    and be: "batch_evaluated T model loss_fn xb yb s1 r s2"
    unfolding evaluated_def by blast
  from nx obtain w' where "g (world s) = (Inr b, w')"
    unfolding returns_def by blast
  with Cons.prems(2) un have "\<not> is_listy yb" by auto
  with be have "snd r = 1"
    unfolding batch_evaluated_def by (auto simp: listify_def)
  moreover from Cons.IH [OF rest] Cons.prems(2) have "map snd rs' = replicate (length rs') 1"
    by simp
  ultimately show ?case by (simp add: rs)
qed

lemma validation_loss_mean:
  assumes "\<forall>x. np_mul N x 1 = x" and "map snd rs = replicate (length rs) 1"
  shows "validation_loss N rs = mean N (map fst rs)"
proof -
  have "np_multiply N (map fst rs) (replicate (length rs) 1) = map fst rs"
    by (rule np_multiply_ones [OF assms(1)]) simp
  then show ?thesis
    by (simp add: validation_loss_def mean_def assms(2) sum_list_replicate)
qed

lemma epoch_done_mean:
  fixes T :: "('w, 't, 'f) torch"
  assumes "\<forall>x. np_mul N x 1 = x" and "yields_plain_targets T valid_dl"
  shows "epoch_done (validation_loss N) T model loss_fn opt train_dl valid_dl =
         epoch_done (\<lambda>rs. mean N (map fst rs)) T model loss_fn opt train_dl valid_dl"
proof (intro ext)
  fix epoch and s s' :: "('w, 't, 'f) state"
  have eq: "validation_loss N rs = mean N (map fst rs)"
    if "returns (Iter ''valid_dl'') (\<lambda>_. RNone) valid_dl gs s4 s5"
      and "iterated ''valid_dl'' (evaluated T model loss_fn) gs s5 rs s6"
    for gs rs and s4 s5 s6 :: "('w, 't, 'f) state"
  proof -
    from that(1) obtain w' where "valid_dl (world s4) = (Inr gs, w')"
      unfolding returns_def by blast
    with assms(2) have "\<forall>g \<in> set gs. \<forall>w1 b w2 xb yb.
           g w1 = (Inr b, w2) \<longrightarrow> unpack T b = Inr (xb, yb) \<longrightarrow> \<not> is_listy yb"
      unfolding yields_plain_targets_def by blast
    from evaluated_plain_count [OF that(2) this] assms(1) show ?thesis
      by (rule validation_loss_mean [rotated])
  qed
  show "epoch_done (validation_loss N) T model loss_fn opt train_dl valid_dl epoch s s' =
        epoch_done (\<lambda>rs. mean N (map fst rs)) T model loss_fn opt train_dl valid_dl epoch s s'"
    (is "?L = ?R")
  proof
    assume ?L
    then obtain s1 fs s2 trs s3 s4 gs s5 rs s6 where
      a: "returns Train (\<lambda>_. RNone) (model_train model) () s s1"
         "returns (Iter ''train_dl'') (\<lambda>_. RNone) train_dl fs s1 s2"
         "iterated ''train_dl'' (trained T model loss_fn opt) fs s2 trs s3"
         "returns Eval (\<lambda>_. RNone) (model_eval model) () s3 s4" and
      b: "returns (Iter ''valid_dl'') (\<lambda>_. RNone) valid_dl gs (no_grad_entered T s4) s5"
         "iterated ''valid_dl'' (evaluated T model loss_fn) gs s5 rs s6" and
      c: "rs \<noteq> []" "s' = printed epoch (validation_loss N rs) (no_grad_exited T s6)"
      unfolding epoch_done_def by blast
    from c(2) eq [OF b] have "s' = printed epoch (mean N (map fst rs)) (no_grad_exited T s6)"
      by simp
    with a b c(1) show ?R
      unfolding epoch_done_def by (intro exI conjI)
  next
    assume ?R
    then obtain s1 fs s2 trs s3 s4 gs s5 rs s6 where
      a: "returns Train (\<lambda>_. RNone) (model_train model) () s s1"
         "returns (Iter ''train_dl'') (\<lambda>_. RNone) train_dl fs s1 s2"
         "iterated ''train_dl'' (trained T model loss_fn opt) fs s2 trs s3"
         "returns Eval (\<lambda>_. RNone) (model_eval model) () s3 s4" and
      b: "returns (Iter ''valid_dl'') (\<lambda>_. RNone) valid_dl gs (no_grad_entered T s4) s5"
         "iterated ''valid_dl'' (evaluated T model loss_fn) gs s5 rs s6" and
      c: "rs \<noteq> []" "s' = printed epoch (mean N (map fst rs)) (no_grad_exited T s6)"
      unfolding epoch_done_def by blast
    from c(2) eq [OF b] have "s' = printed epoch (validation_loss N rs) (no_grad_exited T s6)"
      by simp
    with a b c(1) show ?L
      unfolding epoch_done_def by (intro exI conjI)
  qed
qed

subsection \<open>The runs of fit in the examples\<close>

lemmas loop_defs = for_in_def comprehension_in_def list_loader_def

lemma py_range_1: "py_range 1 = [0]"
  by (simp add: py_range_def upt_rec)



lemma toy_fit_plain_targets:
  "fit toy_torch toy_numpy 1 toy_model toy_loss_fn toy_opt
     (list_loader [])
     (list_loader [PyList [Tensor 3, Tensor 4], PyTuple [PyList [Tensor 5, Tensor 8], Tensor 6]])
     toy_state =
   (Inr (),
    \<lparr>world = (0, False),
     trace =
       [(Train, Inr RNone), (Iter ''train_dl'', Inr RNone),
        (Eval, Inr RNone), (NoGradEnter, Inr RNone),
        (Iter ''valid_dl'', Inr RNone),
        (Next ''valid_dl'', Inr (RBatch (PyList [Tensor 3, Tensor 4]))),
        (Forward [Tensor 3], Inr (RTensor 0)),
        (LossFn 0 [Tensor 4], Inr (RTensor 3)),
        (Item 3, Inr (RFloat 3)),
        (Next ''valid_dl'', Inr (RBatch (PyTuple [PyList [Tensor 5, Tensor 8], Tensor 6]))),
        (Forward [Tensor 5, Tensor 8], Inr (RTensor 0)),
        (LossFn 0 [Tensor 6], Inr (RTensor 3)),
        (Item 3, Inr (RFloat 3)), (NoGradExit, Inr RNone),
        (Print 0 3, Inr RNone)]\<rparr>)"
  by (simp add: toy_defs run_defs loop_defs py_range_1)

lemma toy_eval_failing_fit:
  "fit toy_torch toy_numpy 1 eval_failing_model toy_loss_fn toy_opt
     (list_loader [PyList [Tensor 1, Tensor 2]])
     (list_loader [PyList [Tensor 3, Tensor 4]]) toy_state =
   (Inl (Raised 1),
    \<lparr>world = (10, False),
     trace =
       [(Train, Inr RNone), (Iter ''train_dl'', Inr RNone),
        (Next ''train_dl'', Inr (RBatch (PyList [Tensor 1, Tensor 2]))),
        (Forward [Tensor 1], Inr (RTensor 0)),
        (LossFn 0 [Tensor 2], Inr (RTensor 3)),
        (Backward 3, Inr RNone), (Step, Inr RNone),
        (ZeroGrad, Inr RNone), (Item 3, Inr (RFloat 3)),
        (Eval, Inr RNone), (NoGradEnter, Inr RNone),
        (Iter ''valid_dl'', Inr RNone),
        (Next ''valid_dl'', Inr (RBatch (PyList [Tensor 3, Tensor 4]))),
        (Forward [Tensor 3], Inl (Raised 1)),
        (NoGradExit, Inr RNone)]\<rparr>)"
  by (simp add: toy_defs run_defs loop_defs py_range_1)


section \<open>The batch step\<close>

text \<open>
  Claim C2. For every model, batch \<open>(xb, yb)\<close>, loss function and optimizer other than
  \<open>None\<close>, the calls of \<^verbatim>\<open>loss_batch\<close> that return are exactly those in which the
  framework is called as follows, each call once, in this order, each in the world
  that the call before it left: the forward pass of the model on \<open>xb\<close>, the loss
  function on its output and \<open>yb\<close>, the backward pass on the loss, one optimizer step,
  one zero-gradient reset, and \<^verbatim>\<open>loss.item()\<close>. \<^verbatim>\<open>loss_batch\<close> then returns the pair of the
  number that \<^verbatim>\<open>loss.item()\<close> returned and the length of the target list, it leaves the
  world as the last call left it, and these six calls are all it has added to the
  trace.
\<close>

theorem loss_batch_with_optimizer:
  "loss_batch T model xb yb loss_fn (Some opt) s = (Inr res, s') \<longleftrightarrow>
   (\<exists>out w1 loss w2 w3 w4 w5 item w6.
      model_call model (listify xb) (world s) = (Inr out, w1) \<and>
      loss_fn out (listify yb) w1 = (Inr loss, w2) \<and>
      tensor_backward T loss w2 = (Inr (), w3) \<and>
      opt_step opt w3 = (Inr (), w4) \<and>
      opt_zero_grad opt w4 = (Inr (), w5) \<and>
      tensor_item T loss w5 = (Inr item, w6) \<and>
      res = (item, int (length (listify yb))) \<and>
      s' = \<lparr>world = w6,
            trace = trace s @
              [(Forward (listify xb), Inr (RTensor out)),
               (LossFn out (listify yb), Inr (RTensor loss)),
               (Backward loss, Inr RNone),
               (Step, Inr RNone),
               (ZeroGrad, Inr RNone),
               (Item loss, Inr (RFloat item))]\<rparr>)"
  unfolding loss_batch_Some_returns batch_trained_def returns_def by auto

text \<open>
  In the example the parameter is 0, the loss of the batch is \<open>3 * (0 + 2) = 6\<close>, and the
  optimizer step leaves the parameter at 10.
\<close>

theorem loss_batch_with_optimizer_witness:
  "loss_batch toy_torch toy_model toy_xb toy_yb toy_loss_fn (Some toy_opt) toy_state =
     (Inr (6, 2),
      \<lparr>world = (10, False),
       trace =
         [(Forward [Tensor 5], Inr (RTensor 0)),
          (LossFn 0 [Tensor 6, Tensor 7], Inr (RTensor 6)),
          (Backward 6, Inr RNone), (Step, Inr RNone), (ZeroGrad, Inr RNone),
          (Item 6, Inr (RFloat 6))]\<rparr>)"
  by (rule loss_batch_with_optimizer [THEN iffD2])
     (simp add: toy_defs toy_xb_def toy_yb_def listify_def)

text \<open>
  Claim C9. For every model, batch and loss function, a call of \<^verbatim>\<open>loss_batch\<close> with
  \<open>opt = None\<close> makes no backward pass, no optimizer step and no zero-gradient reset:
  every call it makes is the forward pass, the loss function or \<^verbatim>\<open>loss.item()\<close>, and
  when it returns it has made exactly these three. It leaves the model's parameters
  (any observation \<open>params\<close> of the world that these three calls leave unchanged)
  unchanged.
\<close>

theorem loss_batch_without_optimizer:
  assumes run: "loss_batch T model xb yb loss_fn None s = (r, s')"
  shows "trace s' = trace s @ new_entries s s' \<and>
         list_all (\<lambda>en. forward_loss_item (fst en)) (new_entries s s') \<and>
         (\<forall>item n. r = Inr (item, n) \<longrightarrow>
            (\<exists>out loss. new_entries s s' = valid_batch_entries (xb, yb) (out, loss, item))) \<and>
         ((\<forall>xs. fw_keeps params (model_call model xs)) \<and>
          (\<forall>out ys. fw_keeps params (loss_fn out ys)) \<and>
          (\<forall>loss. fw_keeps params (tensor_item T loss))
          \<longrightarrow> params (world s') = params (world s))"
proof (intro conjI allI impI)
  show t: "trace s' = trace s @ new_entries s s'"
    by (rule behaves_run(1) [OF behaves_loss_batch run])
  show "list_all (\<lambda>en. forward_loss_item (fst en)) (new_entries s s')"
    by (rule loss_batch_None_events [OF run])
  show "\<exists>out loss. new_entries s s' = valid_batch_entries (xb, yb) (out, loss, item)"
    if "r = Inr (item, n)" for item n
  proof -
    from loss_batch_None_Inr [OF run [unfolded that]] obtain out loss where
      "trace s' = trace s @ valid_batch_entries (xb, yb) (out, loss, item)" by blast
    then have "new_entries s s' = valid_batch_entries (xb, yb) (out, loss, item)"
      by (simp add: new_entries_def)
    then show ?thesis by blast
  qed
  show "params (world s') = params (world s)"
    if "(\<forall>xs. fw_keeps params (model_call model xs)) \<and>
        (\<forall>out ys. fw_keeps params (loss_fn out ys)) \<and>
        (\<forall>loss. fw_keeps params (tensor_item T loss))"
  proof -
    from that have "keeps params (loss_batch T model xb yb loss_fn None)"
      by (intro keeps_loss_batch_None) simp_all
    then have "params (world (snd (loss_batch T model xb yb loss_fn None s))) = params (world s)"
      unfolding keeps_def by blast
    with run show ?thesis by simp
  qed
qed

theorem loss_batch_without_optimizer_witness:
  "(\<exists>out loss. new_entries toy_state
      (snd (loss_batch toy_torch toy_model toy_xb toy_yb toy_loss_fn None toy_state)) =
      valid_batch_entries (toy_xb, toy_yb) (out, loss, 6)) \<and>
   list_all (\<lambda>en. forward_loss_item (fst en))
     (new_entries toy_state
        (snd (loss_batch toy_torch toy_model toy_xb toy_yb toy_loss_fn None toy_state))) \<and>
   fst (world (snd (loss_batch toy_torch toy_model toy_xb toy_yb toy_loss_fn None toy_state)))
     = fst (world toy_state)"
proof -
  let ?run = "loss_batch toy_torch toy_model toy_xb toy_yb toy_loss_fn None toy_state"
  have k: "(\<forall>xs. fw_keeps fst (model_call toy_model xs)) \<and>
           (\<forall>out ys. fw_keeps fst (toy_loss_fn out ys)) \<and>
           (\<forall>loss. fw_keeps fst (tensor_item toy_torch loss))"
    by (simp add: fw_keeps_def toy_defs)
  have run: "?run = (Inr (6, 2), snd ?run)"
    unfolding toy_loss_batch_None by simp
  note inst = loss_batch_without_optimizer [OF run, of fst]
  from inst have "\<exists>out loss. new_entries toy_state (snd ?run) =
      valid_batch_entries (toy_xb, toy_yb) (out, loss, 6)" by blast
  moreover from inst have "list_all (\<lambda>en. forward_loss_item (fst en))
      (new_entries toy_state (snd ?run))" by blast
  moreover from inst k have "fst (world (snd ?run)) = fst (world toy_state)" by blast
  ultimately show ?thesis by blast
qed

section \<open>The epoch loop\<close>




text \<open>
  Claim C3. For every batch whose target \<open>yb\<close> is not a tuple or list, the second
  component of the pair that \<^verbatim>\<open>loss_batch\<close> returns is 1. Consequently, when \<open>valid_dl\<close>
  yields such targets only, the calls of \<^verbatim>\<open>fit\<close> that return are exactly those that make
  \<open>epochs\<close> iterations as in claim C1 in which the number printed is the unweighted
  arithmetic mean of the losses of the validation batches, whatever the batches hold.
  The numbers are those of the framework; what is used of their arithmetic is that a
  number times the integer 1 is the number.
\<close>

theorem plain_targets_count_one:
  "(\<not> is_listy yb \<longrightarrow>
      loss_batch T model xb yb loss_fn opt' s0 = (Inr (item, n), s0') \<longrightarrow> n = 1) \<and>
   ((\<forall>x. np_mul N x 1 = x) \<longrightarrow> yields_plain_targets T valid_dl \<longrightarrow>
      (fit T N epochs model loss_fn opt train_dl valid_dl s = (Inr (), s') \<longleftrightarrow>
       repeated (epoch_done (\<lambda>rs. mean N (map fst rs)) T model loss_fn opt train_dl valid_dl)
         (nat epochs) s s'))"
proof (intro conjI impI)
  assume "\<not> is_listy yb" and "loss_batch T model xb yb loss_fn opt' s0 = (Inr (item, n), s0')"
  then show "n = 1"
    by (cases opt')
       (auto simp: loss_batch_None_returns loss_batch_Some_returns batch_evaluated_def
          batch_trained_def listify_def)
next
  assume "\<forall>x. np_mul N x 1 = x" and "yields_plain_targets T valid_dl"
  then have "epoch_done (validation_loss N) T model loss_fn opt train_dl valid_dl =
      epoch_done (\<lambda>rs. mean N (map fst rs)) T model loss_fn opt train_dl valid_dl"
    by (rule epoch_done_mean)
  then show "fit T N epochs model loss_fn opt train_dl valid_dl s = (Inr (), s') \<longleftrightarrow>
       repeated (epoch_done (\<lambda>rs. mean N (map fst rs)) T model loss_fn opt train_dl valid_dl)
         (nat epochs) s s'"
    by (simp add: fit_returns)
qed

text \<open>
  In the example the two validation batches have the loss 3 each, and the second batch
  has two inputs: the number printed is \<open>(3 + 3) / 2 = 3\<close>.
\<close>

theorem plain_targets_count_one_witness:
  "(\<exists>item s0'. loss_batch toy_torch toy_model toy_xb (Tensor 4) toy_loss_fn None toy_state
       = (Inr (item, 1), s0')) \<and>
   repeated (epoch_done (\<lambda>rs. mean toy_numpy (map fst rs)) toy_torch toy_model toy_loss_fn toy_opt
       (list_loader [])
       (list_loader [PyList [Tensor 3, Tensor 4], PyTuple [PyList [Tensor 5, Tensor 8], Tensor 6]]))
     (nat 1) toy_state
     (snd (fit toy_torch toy_numpy 1 toy_model toy_loss_fn toy_opt
       (list_loader [])
       (list_loader [PyList [Tensor 3, Tensor 4], PyTuple [PyList [Tensor 5, Tensor 8], Tensor 6]])
       toy_state))"
proof
  obtain item n s0' where
    run: "loss_batch toy_torch toy_model toy_xb (Tensor 4) toy_loss_fn None toy_state
            = (Inr (item, n), s0')"
    by (simp add: toy_defs run_defs toy_xb_def)
  have "\<not> is_listy (Tensor (4::int))" by simp
  with plain_targets_count_one [THEN conjunct1, rule_format, OF _ run]
  have "n = 1" by blast
  with run show "\<exists>item s0'. loss_batch toy_torch toy_model toy_xb (Tensor 4) toy_loss_fn None
       toy_state = (Inr (item, 1), s0')" by blast
next
  let ?valid = "list_loader [PyList [Tensor 3, Tensor 4],
                  PyTuple [PyList [Tensor 5, Tensor 8], Tensor 6]] :: (int \<times> bool, int) loader"
  let ?train = "list_loader [] :: (int \<times> bool, int) loader"
  have one: "np_mul toy_numpy x 1 = x" for x by (simp add: toy_numpy_def)
  have plain: "yields_plain_targets toy_torch ?valid"
    by (auto simp: yields_plain_targets_def list_loader_def)
  have run: "fit toy_torch toy_numpy 1 toy_model toy_loss_fn toy_opt ?train ?valid toy_state =
     (Inr (), snd (fit toy_torch toy_numpy 1 toy_model toy_loss_fn toy_opt ?train ?valid toy_state))"
    unfolding toy_fit_plain_targets by simp
  from plain_targets_count_one [THEN conjunct2, rule_format, OF one plain, THEN iffD1, OF run]
  show "repeated (epoch_done (\<lambda>rs. mean toy_numpy (map fst rs)) toy_torch toy_model toy_loss_fn
       toy_opt ?train ?valid) (nat 1) toy_state
     (snd (fit toy_torch toy_numpy 1 toy_model toy_loss_fn toy_opt ?train ?valid toy_state))" .
qed

section \<open>The dataset and loader wrappers: properties\<close>

text \<open>
  Claim C4. For every dataset \<open>ds\<close>, transform \<open>tfm\<close> and valid index \<open>idx\<close>,
  \<^verbatim>\<open>DatasetTfm(ds, tfm)\<close> has the length of \<open>ds\<close>; with \<open>(x, y) = ds[idx]\<close>, its element at
  \<open>idx\<close> is \<open>(x, y)\<close> unchanged when \<open>tfm\<close> is \<open>None\<close>, and \<open>(tfm(x), y)\<close> otherwise (whenever
  \<open>tfm(x)\<close> returns). The target \<open>y\<close> is never transformed.
\<close>

theorem DatasetTfm_len_getitem:
  "snd (DatasetTfm_len \<lparr>dt_ds = dataset, dt_tfm = tfm\<rparr>) = ds_len dataset \<and>
   (ds_getitem dataset idx = Inr (x, y) \<longrightarrow>
      snd (DatasetTfm_getitem \<lparr>dt_ds = dataset, dt_tfm = None\<rparr> idx) = Inr (x, y) \<and>
      (\<forall>f x'. f x = Inr x' \<longrightarrow>
         snd (DatasetTfm_getitem \<lparr>dt_ds = dataset, dt_tfm = Some f\<rparr> idx) = Inr (x', y)))"
  by (simp add: DatasetTfm_len_def DatasetTfm_getitem_def)

text \<open>A dataset of three items, indexed from 0, and a transform that doubles.\<close>

theorem DatasetTfm_len_getitem_witness:
  "snd (DatasetTfm_len \<lparr>dt_ds = toy_dataset, dt_tfm = Some toy_tfm\<rparr>) = Inr 3 \<and>
   snd (DatasetTfm_getitem \<lparr>dt_ds = toy_dataset, dt_tfm = None\<rparr> 2) = Inr (12, 22) \<and>
   snd (DatasetTfm_getitem \<lparr>dt_ds = toy_dataset, dt_tfm = Some toy_tfm\<rparr> 2) = Inr (24, 22)"
proof -
  have g: "ds_getitem toy_dataset 2 = Inr (12, 22)"
    by (simp add: toy_dataset_def)
  have t: "toy_tfm 12 = Inr 24"
    by (simp add: toy_tfm_def)
  from DatasetTfm_len_getitem [of toy_dataset "Some toy_tfm" 2 12 22] g t
  show ?thesis by (simp add: toy_dataset_def)
qed

text \<open>
  Claim C5. For every underlying loader \<open>dl\<close> and device \<open>d\<close>, iterating
  \<^verbatim>\<open>DeviceDataLoader(dl, d)\<close> yields as many items as \<open>dl\<close> has batches, in the same
  order: the \<open>i\<close>-th item is \<^verbatim>\<open>to_device\<close> of the \<open>i\<close>-th batch of \<open>dl\<close> and \<open>d\<close>, computed one
  batch at a time; and \<^verbatim>\<open>len(DeviceDataLoader(dl, d))\<close> is \<^verbatim>\<open>len(dl)\<close>.
\<close>

theorem DeviceDataLoader_yields_batches:
  "length (snd (DeviceDataLoader_iter tensor_to dflt (DeviceDataLoader_init loader d)))
     = length (dl_batches loader) \<and>
   (\<forall>i < length (dl_batches loader).
      snd (DeviceDataLoader_iter tensor_to dflt (DeviceDataLoader_init loader d)) ! i
        = to_device tensor_to dflt (dl_batches loader ! i) d) \<and>
   snd (DeviceDataLoader_len (DeviceDataLoader_init loader d)) = dl_len loader"
  by (simp add: DeviceDataLoader_iter_def DeviceDataLoader_init_def DeviceDataLoader_len_def
        proc_batch_def Let_def)

theorem DeviceDataLoader_yields_batches_witness:
  "snd (DeviceDataLoader_iter toy_to (Device ''cpu'') (DeviceDataLoader_init toy_loader None)) ! 1
     = Inr (PyList [Tensor (3, Device ''cpu''), Tensor (4, Device ''cpu'')])"
proof -
  have "(1::nat) < length (dl_batches toy_loader)"
    by (simp add: toy_loader_def)
  with DeviceDataLoader_yields_batches [of toy_to "Device ''cpu''" toy_loader None]
  have "snd (DeviceDataLoader_iter toy_to (Device ''cpu'') (DeviceDataLoader_init toy_loader None)) ! 1
     = to_device toy_to (Device ''cpu'') (dl_batches toy_loader ! 1) None"
    by blast
  then show ?thesis
    by (simp add: toy_loader_def toy_to_def ifnone_def)
qed



section \<open>Device placement: properties\<close>

text \<open>
  Claim C10. For every input \<open>b\<close>, \<^verbatim>\<open>to_device(b, None)\<close> is \<^verbatim>\<open>to_device\<close> of \<open>b\<close> and the
  module-level default device (CUDA if it was available when the module was loaded,
  else CPU): a tensor is transferred there by \<^verbatim>\<open>.to\<close>, and so is every tensor inside
  \<open>b\<close>. For every tuple or list, \<^verbatim>\<open>to_device\<close> returns a Python list of its recursively
  transferred elements: no tuple is left anywhere in a result.
\<close>

theorem to_device_default_and_lists:
  "to_device tensor_to (default_device cuda) b None
     = to_device tensor_to (default_device cuda) b (Some (default_device cuda)) \<and>
   to_device tensor_to (default_device cuda) (Tensor t) None
     = bindE (tensor_to t (default_device cuda)) (\<lambda>t'. Inr (Tensor t')) \<and>
   default_device cuda = (if cuda then Device ''cuda'' else Device ''cpu'') \<and>
   (to_device tensor_to (default_device cuda) b None = Inr r \<longrightarrow>
      map Inr (leaves r) = map (\<lambda>t. tensor_to t (default_device cuda)) (leaves b)) \<and>
   (is_listy b \<longrightarrow>
      to_device tensor_to dflt b device =
        bindE (collect (map (\<lambda>o'. to_device tensor_to dflt o' (Some (ifnone device dflt))) (elems b)))
          (\<lambda>rs. Inr (PyList rs))) \<and>
   (to_device tensor_to dflt b device = Inr r' \<longrightarrow> lists_only r')"
proof (intro conjI impI)
  show "to_device tensor_to (default_device cuda) b None
     = to_device tensor_to (default_device cuda) b (Some (default_device cuda))"
    by (rule to_device_None)
  show "to_device tensor_to (default_device cuda) (Tensor t) None
     = bindE (tensor_to t (default_device cuda)) (\<lambda>t'. Inr (Tensor t'))"
    by simp
  show "default_device cuda = (if cuda then Device ''cuda'' else Device ''cpu'')"
    by (simp add: default_device_def)
  show "map Inr (leaves r) = map (\<lambda>t. tensor_to t (default_device cuda)) (leaves b)"
    if "to_device tensor_to (default_device cuda) b None = Inr r"
    using to_device_Inr [OF that] by simp
  show "to_device tensor_to dflt b device =
        bindE (collect (map (\<lambda>o'. to_device tensor_to dflt o' (Some (ifnone device dflt))) (elems b)))
          (\<lambda>rs. Inr (PyList rs))" if "is_listy b"
    using that by (rule to_device_listy)
  show "lists_only r'" if "to_device tensor_to dflt b device = Inr r'"
    using to_device_Inr [OF that] by simp
qed

theorem to_device_default_and_lists_witness:
  "to_device toy_to (default_device True)
     (PyTuple [Tensor (1, Device ''cpu''), PyTuple [Tensor (2, Device ''cpu'')]]) None =
   Inr (PyList [Tensor (1, Device ''cuda''), PyList [Tensor (2, Device ''cuda'')]]) \<and>
   map Inr (leaves (PyList [Tensor (1::int, Device ''cuda''), PyList [Tensor (2, Device ''cuda'')]])) =
     map (\<lambda>t. toy_to t (default_device True))
       (leaves (PyTuple [Tensor (1, Device ''cpu''), PyTuple [Tensor (2, Device ''cpu'')]])) \<and>
   lists_only (PyList [Tensor (1::int, Device ''cuda''), PyList [Tensor (2, Device ''cuda'')]])"
proof -
  let ?b = "PyTuple [Tensor (1::int, Device ''cpu''), PyTuple [Tensor (2, Device ''cpu'')]]"
  let ?r = "PyList [Tensor (1::int, Device ''cuda''), PyList [Tensor (2, Device ''cuda'')]]"
  have listy: "is_listy ?b" by simp
  note inst = to_device_default_and_lists [of toy_to True ?b _ ?r "default_device True" None ?r]
  from inst listy have "to_device toy_to (default_device True) ?b None =
      bindE (collect (map (\<lambda>o'. to_device toy_to (default_device True) o'
                            (Some (ifnone None (default_device True)))) (elems ?b)))
        (\<lambda>rs. Inr (PyList rs))" by blast
  then have run: "to_device toy_to (default_device True) ?b None = Inr ?r"
    by (simp add: toy_to_def default_device_def)
  from inst run have "map Inr (leaves ?r) = map (\<lambda>t. toy_to t (default_device True)) (leaves ?b)"
    by blast
  moreover from inst run have "lists_only ?r" by blast
  ultimately show ?thesis using run by blast
qed

section \<open>The convolutional network builder: properties\<close>

text \<open>
  Claim C8, as the code has it. For lists \<open>actns\<close>, \<open>kernel_szs\<close> and \<open>strides\<close> with
  \<open>n = len(strides)\<close>, \<open>len(actns) \<ge> n + 1\<close> and \<open>len(kernel_szs) \<ge> n\<close>: when the framework's
  constructors raise on none of the calls that build it, \<^verbatim>\<open>simple_cnn\<close> returns a
  sequential model of exactly \<open>n\<close> convolution-plus-ReLU blocks followed by one
  adaptive-average-pool-and-flatten block; the \<open>i\<close>-th convolution has \<open>actns[i]\<close> input
  channels, \<open>actns[i+1]\<close> output channels, kernel size \<open>kernel_szs[i]\<close>, stride
  \<open>strides[i]\<close> and padding \<open>kernel_szs[i] // 2\<close>. When a constructor raises,
  \<^verbatim>\<open>simple_cnn\<close> raises the exception of the first call that does, in the order of
  construction.
\<close>

theorem simple_cnn_blocks:
  assumes "n = length strides" and "n + 1 \<le> length actns" and "n \<le> length kernel_szs"
  shows
    "(first_raise NN (cnn_described actns kernel_szs strides) = None \<longrightarrow>
        simple_cnn NN actns kernel_szs strides =
          Inr (Sequential (map (conv_relu_block actns kernel_szs strides) [0..<n] @
                 [Sequential [AdaptiveAvgPool2d 1, Lambda FlattenView]]))) \<and>
     (\<forall>e. first_raise NN (cnn_described actns kernel_szs strides) = Some e \<longrightarrow>
        simple_cnn NN actns kernel_szs strides = Inl e)"
  using assms simple_cnn_built [of strides actns kernel_szs NN]
  by (simp add: built_def cnn_described_def)

text \<open>A framework that accepts every constructor call, and three blocks.\<close>

theorem simple_cnn_blocks_witness:
  "simple_cnn (\<lambda>l. None) [1, 16, 16, 10] [3, 3, 3] [2, 2, 2] =
     Inr (Sequential
       [Sequential [Conv2d 1 16 3 2 1 False, ReLU],
        Sequential [Conv2d 16 16 3 2 1 False, ReLU],
        Sequential [Conv2d 16 10 3 2 1 False, ReLU],
        Sequential [AdaptiveAvgPool2d 1, Lambda FlattenView]])"
proof -
  have up: "[0..<3] = [0, 1, 2]"
    by (simp add: upt_rec)
  have "first_raise (\<lambda>l. None) (cnn_described [1, 16, 16, 10] [3, 3, 3] [2, 2, 2]) = None"
    by (simp add: cnn_described_def conv_relu_block_def up)
  with simple_cnn_blocks [of 3 "[2, 2, 2]" "[1, 16, 16, 10]" "[3, 3, 3]" "\<lambda>l. None"]
  show ?thesis
    by (simp add: conv_relu_block_def up)
qed

text \<open>
  The claim as written fails on lists that meet its conditions: with the kernel size
  \<open>-3\<close> the constructor of the convolution raises, and so does \<^verbatim>\<open>simple_cnn\<close>.
\<close>

theorem simple_cnn_negative_kernel_raises:
  "length [2::int] + 1 \<le> length [1::int, 16] \<and> length [2::int] \<le> length [-3::int] \<and>
   simple_cnn toy_nn [1, 16] [-3] [2] = Inl (Raised 4)"
  by (simp add: simple_cnn_def conv2d_relu_def conv2d_def nn_def toy_nn_def py_getitem_def
        Let_def)

end
